theory Spec2Isabelle
  imports Complex_Main "HOL-Library.Word" "HOL-Library.AList" "HOL-Library.Sublist"
begin

unbundle bit_operations_syntax

section \<open>The web-search client of the MCP toolbox\<close>

text \<open>
  A shallow embedding of \<^verbatim>\<open>src/tools/web-search\<close>: the rate limiter, the cache, the URL
  filter, the error classifier with its retry loop, the search client and the Sonar
  answer client. Timestamps and durations are milliseconds (\<open>int\<close>). The clock is
  read by \<^verbatim>\<open>Date.now()\<close>; a synchronous stretch of code is taken to run within one
  clock tick, and time passes only at an \<^verbatim>\<open>await\<close>.
\<close>

subsection \<open>RateLimiter (rate-limiter.ts)\<close>

text \<open>
  The class keeps the timestamps of the recorded requests in an array. The constructor
  replaces a \<open>limit\<close>, \<open>windowMs\<close> or \<open>retryAfterMs\<close> that is not a positive number
  by 5, 1000 and 1000.
\<close>

record RateLimiter =
  requests :: "int list"
  limit :: int
  windowMs :: int
  retryAfterMs :: int

text \<open>
  \<^verbatim>\<open>checkLimit()\<close>: \<^verbatim>\<open>this.requests = this.requests.filter(t => now - t < this.windowMs)\<close>,
  then \<^verbatim>\<open>this.requests.length < this.limit\<close>. The first argument is \<^verbatim>\<open>Date.now()\<close>.
\<close>

definition checkLimit :: "int \<Rightarrow> RateLimiter \<Rightarrow> bool \<times> RateLimiter" where
  "checkLimit now rl =
     (let rl' = rl\<lparr>requests := filter (\<lambda>timestamp. now - timestamp < windowMs rl) (requests rl)\<rparr>
      in (int (length (requests rl')) < limit rl', rl'))"

text \<open>\<^verbatim>\<open>increment()\<close>: \<^verbatim>\<open>this.requests.push(Date.now())\<close>.\<close>

definition increment :: "int \<Rightarrow> RateLimiter \<Rightarrow> RateLimiter" where
  "increment now rl = rl\<lparr>requests := requests rl @ [now]\<rparr>"

text \<open>\<^verbatim>\<open>reset()\<close>: \<^verbatim>\<open>this.requests = []\<close>.\<close>

definition reset :: "RateLimiter \<Rightarrow> RateLimiter" where
  "reset rl = rl\<lparr>requests := []\<rparr>"

text \<open>
  The way \<^verbatim>\<open>searchWeb\<close> drives the limiter: a call asks \<open>checkLimit\<close> and, when it is
  admitted (and its request went out), records itself with \<open>increment\<close>. \<open>admit_at\<close> is
  one such call at clock value \<open>t\<close>; \<open>admit_all\<close> runs a sequence of calls, one per clock
  value, and collects the answers of \<open>checkLimit\<close>.
\<close>

definition admit_at :: "int \<Rightarrow> RateLimiter \<Rightarrow> bool \<times> RateLimiter" where
  "admit_at t rl =
     (case checkLimit t rl of
        (ok, rl') \<Rightarrow> (ok, if ok then increment t rl' else rl'))"

fun admit_all :: "int list \<Rightarrow> RateLimiter \<Rightarrow> bool list \<times> RateLimiter" where
  "admit_all [] rl = ([], rl)"
| "admit_all (t # ts) rl =
     (case admit_at t rl of
        (ok, rl') \<Rightarrow> (case admit_all ts rl' of (oks, rl'') \<Rightarrow> (ok # oks, rl'')))"

subsection \<open>The data model (types.ts)\<close>

record SearchResult =
  title :: string
  url :: string
  snippet :: string
  published_at :: "string option"
  source :: "string option"
  score :: "real option"

datatype time_range = TR_any | TR_day | TR_week | TR_month | TR_year

datatype dedupe = Dedupe_none | Dedupe_domain | Dedupe_title

datatype sonar_model =
  Sonar | Sonar_pro | Sonar_reasoning | Sonar_reasoning_pro | Sonar_deep_research

text \<open>The \<open>meta\<close> object of a response.\<close>

record Meta =
  query :: string
  meta_top_k :: int
  meta_time_range :: time_range
  cost_estimate :: real
  cache_hit :: bool
  response_time :: int

text \<open>
  \<^verbatim>\<open>SearchWebResult\<close>. A cluster is a value the client never looks into
  (\<^verbatim>\<open>any\<close>); it is carried as a string.
\<close>

record SearchWebResult =
  results :: "SearchResult list"
  meta :: Meta
  clusters :: "string list option"
  highlights :: "string list option"
  citations :: "SearchResult list option"

subsection \<open>Cache (cache.ts)\<close>

record CacheEntry =
  data :: SearchWebResult
  timestamp :: int
  ttl :: int

text \<open>
  The class holds a \<^verbatim>\<open>Map<string, CacheEntry>\<close> and \<open>defaultTtl\<close> (milliseconds).
  The map is an association list in insertion order, as a JavaScript \<^verbatim>\<open>Map\<close> iterates:
  \<^verbatim>\<open>Map.set\<close> replaces the value of a key in place and appends a new key
  (\<open>AList.update\<close>), \<^verbatim>\<open>Map.delete\<close> removes it (\<open>AList.delete\<close>), \<^verbatim>\<open>Map.get\<close> is
  \<open>map_of\<close>.
\<close>

record Cache =
  entries :: "(string \<times> CacheEntry) list"
  defaultTtl :: int

text \<open>The expiry test of \<^verbatim>\<open>get\<close> and of the sweep: \<^verbatim>\<open>now - entry.timestamp > entry.ttl\<close>.\<close>

definition expired :: "int \<Rightarrow> CacheEntry \<Rightarrow> bool" where
  "expired now entry = (now - timestamp entry > ttl entry)"

text \<open>
  \<^verbatim>\<open>get(key)\<close>: \<open>None\<close> is the \<^verbatim>\<open>null\<close> of a missing or an expired entry; an expired entry
  is deleted on the way.
\<close>

definition Cache_get :: "int \<Rightarrow> string \<Rightarrow> Cache \<Rightarrow> SearchWebResult option \<times> Cache" where
  "Cache_get now key c =
     (case map_of (entries c) key of
        None \<Rightarrow> (None, c)
      | Some entry \<Rightarrow>
          if expired now entry
          then (None, c\<lparr>entries := AList.delete key (entries c)\<rparr>)
          else (Some (data entry), c))"

text \<open>
  \<^verbatim>\<open>set(key, data, ttl?)\<close> stores \<^verbatim>\<open>{ data, timestamp: Date.now(), ttl: ttl || this.defaultTtl }\<close>.
  The optional argument is \<open>None\<close> when it is left out; \<^verbatim>\<open>||\<close> takes its right operand
  when the left one is falsy, which for a number is \<^verbatim>\<open>undefined\<close> and 0 (a \<open>ttl\<close> is
  a whole number of milliseconds here, so \<^verbatim>\<open>NaN\<close> does not occur).
\<close>

definition or_default :: "int option \<Rightarrow> int \<Rightarrow> int" where
  "or_default v d = (case v of None \<Rightarrow> d | Some n \<Rightarrow> if n = 0 then d else n)"

definition Cache_set :: "int \<Rightarrow> string \<Rightarrow> SearchWebResult \<Rightarrow> int option \<Rightarrow> Cache \<Rightarrow> Cache" where
  "Cache_set now key d ttl_arg c =
     (let entry = \<lparr>data = d, timestamp = now, ttl = or_default ttl_arg (defaultTtl c)\<rparr>
      in c\<lparr>entries := AList.update key entry (entries c)\<rparr>)"

text \<open>\<^verbatim>\<open>delete(key)\<close> and \<^verbatim>\<open>clear()\<close>.\<close>

definition Cache_delete :: "string \<Rightarrow> Cache \<Rightarrow> Cache" where
  "Cache_delete key c = c\<lparr>entries := AList.delete key (entries c)\<rparr>"

definition Cache_clear :: "Cache \<Rightarrow> Cache" where
  "Cache_clear c = c\<lparr>entries := []\<rparr>"

text \<open>The periodic sweep removes every entry that is expired at the time it runs.\<close>

definition Cache_cleanup :: "int \<Rightarrow> Cache \<Rightarrow> Cache" where
  "Cache_cleanup now c = c\<lparr>entries := filter (\<lambda>(key, entry). \<not> expired now entry) (entries c)\<rparr>"

text \<open>
  What the spec's wording \<^verbatim>\<open>ttl ?? defaultTtl\<close> would store: \<^verbatim>\<open>??\<close> takes its right
  operand only when the left one is \<^verbatim>\<open>undefined\<close> (or \<^verbatim>\<open>null\<close>).
\<close>

definition nullish_default :: "int option \<Rightarrow> int \<Rightarrow> int" where
  "nullish_default v d = (case v of None \<Rightarrow> d | Some n \<Rightarrow> n)"

subsection \<open>Strings\<close>

text \<open>
  The JavaScript string operations the client uses. \<^verbatim>\<open>a.join(sep)\<close> and
  \<^verbatim>\<open>s.split(c)\<close> for a one-character separator:
\<close>

fun join :: "string \<Rightarrow> string list \<Rightarrow> string" where
  "join sep [] = []"
| "join sep [x] = x"
| "join sep (x # y # ys) = x @ sep @ join sep (y # ys)"

fun split_on :: "char \<Rightarrow> string \<Rightarrow> string list" where
  "split_on c [] = [[]]"
| "split_on c (x # xs) =
     (if x = c then [] # split_on c xs
      else (case split_on c xs of
              [] \<Rightarrow> [[x]]
            | p # ps \<Rightarrow> (x # p) # ps))"

text \<open>\<^verbatim>\<open>s.includes(p)\<close>: \<open>p\<close> occurs in \<open>s\<close> as a contiguous substring.\<close>

fun includes_str :: "string \<Rightarrow> string \<Rightarrow> bool" where
  "includes_str [] p = (p = [])"
| "includes_str (c # cs) p = (take (length p) (c # cs) = p \<or> includes_str cs p)"

text \<open>Decimal digits: the \<^verbatim>\<open>\d\<close> of a regular expression, and their value.\<close>

definition is_digit :: "char \<Rightarrow> bool" where
  "is_digit c = (c \<in> set ''0123456789'')"

definition digit_value :: "char \<Rightarrow> int" where
  "digit_value c = int (of_char c) - 48"

text \<open>\<^verbatim>\<open>Number(s)\<close> for a string of decimal digits.\<close>

definition Number_digits :: "string \<Rightarrow> int" where
  "Number_digits s = foldl (\<lambda>a c. 10 * a + digit_value c) 0 s"

text \<open>
  \<^verbatim>\<open>parseInt(s, 10)\<close>: leading white space is skipped, a sign is read, then the longest
  run of digits; \<open>None\<close> is \<^verbatim>\<open>NaN\<close> (no digit there).
\<close>

definition is_space :: "char \<Rightarrow> bool" where
  "is_space c = (of_char c \<in> {9::nat, 10, 11, 12, 13, 32})"

definition parseInt10 :: "string \<Rightarrow> int option" where
  "parseInt10 s =
     (let s1 = dropWhile is_space s;
          neg = (case s1 of [] \<Rightarrow> False | c # _ \<Rightarrow> c = CHR ''-'');
          s2 = (case s1 of [] \<Rightarrow> [] | c # r \<Rightarrow> if c = CHR ''-'' \<or> c = CHR ''+'' then r else s1);
          ds = takeWhile is_digit s2
      in if ds = [] then None
         else Some (if neg then - Number_digits ds else Number_digits ds))"

text \<open>\<^verbatim>\<open>String(n)\<close> for a whole number.\<close>

fun show_nat :: "nat \<Rightarrow> string" where
  "show_nat n =
     (if n < 10 then [''0123456789'' ! n]
      else show_nat (n div 10) @ [''0123456789'' ! (n mod 10)])"

declare show_nat.simps [simp del]

definition show_int :: "int \<Rightarrow> string" where
  "show_int i = (if i < 0 then CHR ''-'' # show_nat (nat (- i)) else show_nat (nat i))"

text \<open>
  \<^verbatim>\<open>v || d\<close> for an optional string: the right operand when \<open>v\<close> is \<^verbatim>\<open>undefined\<close> or
  empty. \<open>truthy_str\<close> is \<^verbatim>\<open>if (v)\<close>.
\<close>

definition truthy_str :: "string option \<Rightarrow> bool" where
  "truthy_str v = (case v of None \<Rightarrow> False | Some s \<Rightarrow> s \<noteq> [])"

definition or_str :: "string option \<Rightarrow> string \<Rightarrow> string" where
  "or_str v d = (case v of None \<Rightarrow> d | Some s \<Rightarrow> if s = [] then d else s)"

subsection \<open>32-bit integer operators\<close>

text \<open>
  JavaScript's \<^verbatim>\<open><<\<close>, \<^verbatim>\<open>&\<close> and \<^verbatim>\<open>~\<close> convert their operands to signed 32-bit
  integers (\<^verbatim>\<open>ToInt32\<close>: the value modulo \<open>2^32\<close>, read as two's complement) and give a
  signed 32-bit result; the shift count is taken modulo 32. \<^verbatim>\<open>+\<close> and \<^verbatim>\<open>-\<close> are
  exact on whole numbers of this size.
\<close>

definition ToInt32 :: "int \<Rightarrow> 32 word" where
  "ToInt32 x = word_of_int x"

definition js_shl :: "int \<Rightarrow> int \<Rightarrow> int" where
  "js_shl a n = sint (push_bit (nat (n mod 32)) (ToInt32 a))"

definition js_and :: "int \<Rightarrow> int \<Rightarrow> int" where
  "js_and a b = sint (ToInt32 a AND ToInt32 b)"

definition js_not :: "int \<Rightarrow> int" where
  "js_not a = sint (NOT (ToInt32 a))"

subsection \<open>Security filter (security.ts)\<close>

definition FORBIDDEN_IP_RANGES :: "string list" where
  "FORBIDDEN_IP_RANGES =
     [''127.0.0.0/8'', ''10.0.0.0/8'', ''172.16.0.0/12'', ''192.168.0.0/16'',
      ''169.254.0.0/16'', ''0.0.0.0/8'', ''100.64.0.0/10'', ''192.0.0.0/24'',
      ''192.0.2.0/24'', ''198.51.100.0/24'', ''203.0.113.0/24'', ''224.0.0.0/4'',
      ''240.0.0.0/4'', ''255.255.255.255/32'']"

definition FORBIDDEN_HOSTNAMES :: "string list" where
  "FORBIDDEN_HOSTNAMES =
     [''metadata.google.internal'', ''169.254.169.254'', ''169.254.169.123'',
      ''metadata'', ''metadata.internal'']"

definition ALLOWED_PROTOCOLS :: "string list" where
  "ALLOWED_PROTOCOLS = [''https:'']"

text \<open>
  The regular expression \<^verbatim>\<open>/^(\d{1,3})\.(\d{1,3})\.(\d{1,3})\.(\d{1,3})$/\<close>: the string
  is four runs of one to three digits with dots between them. The result is the four
  groups, \<open>None\<close> when the string does not match.
\<close>

definition match_ipv4 :: "string \<Rightarrow> string list option" where
  "match_ipv4 s =
     (let groups = split_on CHR ''.'' s
      in if length groups = 4
            \<and> list_all (\<lambda>g. 1 \<le> length g \<and> length g \<le> 3 \<and> list_all is_digit g) groups
         then Some groups else None)"

text \<open>\<^verbatim>\<open>(o[0] << 24) + (o[1] << 16) + (o[2] << 8) + o[3]\<close> for the four octets.\<close>

definition ip_to_int :: "int list \<Rightarrow> int" where
  "ip_to_int octets =
     js_shl (octets ! 0) 24 + js_shl (octets ! 1) 16 + js_shl (octets ! 2) 8 + octets ! 3"

text \<open>
  \<^verbatim>\<open>isIPInRange(ipInt, range)\<close>. \<^verbatim>\<open>range.split('/')\<close> is destructured into its first
  two elements; a missing second element is \<^verbatim>\<open>undefined\<close>, which \<^verbatim>\<open>parseInt\<close> turns
  into \<^verbatim>\<open>NaN\<close>.
\<close>

definition isIPInRange :: "int \<Rightarrow> string \<Rightarrow> bool" where
  "isIPInRange ipInt range_str =
     (case split_on CHR ''/'' range_str of
        [] \<Rightarrow> False
      | rangeIP # rest \<Rightarrow>
          (case (case rest of [] \<Rightarrow> None | prefixLengthStr # _ \<Rightarrow> parseInt10 prefixLengthStr) of
             None \<Rightarrow> False
           | Some prefixLength \<Rightarrow>
               if prefixLength < 0 \<or> prefixLength > 32 then False
               else (case match_ipv4 rangeIP of
                       None \<Rightarrow> False
                     | Some groups \<Rightarrow>
                         (let rangeIPInt = ip_to_int (map Number_digits groups);
                              mask = js_not (js_shl 1 (32 - prefixLength) - 1)
                          in js_and ipInt mask = js_and rangeIPInt mask))))"

text \<open>
  \<^verbatim>\<open>isForbiddenIP(ip)\<close>: a string that is not a dotted quad is not forbidden; a dotted
  quad with an octet above 255 is; otherwise the address is looked up in the ranges.
\<close>

definition isForbiddenIP :: "string \<Rightarrow> bool" where
  "isForbiddenIP ip =
     (case match_ipv4 ip of
        None \<Rightarrow> False
      | Some groups \<Rightarrow>
          (let octets = map Number_digits groups
           in if list_ex (\<lambda>octet. octet < 0 \<or> octet > 255) octets then True
              else list_ex (isIPInRange (ip_to_int octets)) FORBIDDEN_IP_RANGES))"

text \<open>
  The WHATWG \<^verbatim>\<open>URL\<close> class is a built-in of the runtime, not code of the repository.
  A parsed URL is the record of the components the client reads or writes; the
  constructor (\<open>None\<close> when it throws on an invalid URL) and \<^verbatim>\<open>toString()\<close> are
  parameters of every function that uses them.
\<close>

record URL =
  protocol :: string
  username :: string
  password :: string
  hostname :: string
  port :: string
  pathname :: string
  search :: string
  hash :: string

record URL_class =
  URL_new :: "string \<Rightarrow> URL option"
  URL_toString :: "URL \<Rightarrow> string"

text \<open>\<^verbatim>\<open>isValidUrl(urlString)\<close>; the \<^verbatim>\<open>catch\<close> branch is the \<open>None\<close> case.\<close>

definition isValidUrl :: "URL_class \<Rightarrow> string \<Rightarrow> bool" where
  "isValidUrl U urlString =
     (case URL_new U urlString of
        None \<Rightarrow> False
      | Some u \<Rightarrow>
          if protocol u \<notin> set ALLOWED_PROTOCOLS then False
          else if hostname u \<in> set FORBIDDEN_HOSTNAMES then False
          else if isForbiddenIP (hostname u) then False
          else True)"

text \<open>
  \<^verbatim>\<open>sanitizeUrl(urlString)\<close>: user name, password and fragment are emptied and the URL
  is serialised; a string that does not parse is returned as it is.
\<close>

definition sanitizeUrl :: "URL_class \<Rightarrow> string \<Rightarrow> string" where
  "sanitizeUrl U urlString =
     (case URL_new U urlString of
        None \<Rightarrow> urlString
      | Some u \<Rightarrow> URL_toString U (u\<lparr>username := [], password := [], hash := []\<rparr>))"

subsection \<open>Errors and retry (errors.ts)\<close>

datatype WebSearchErrorCode =
  INVALID_PARAMETERS | API_ERROR | NETWORK_ERROR | RATE_LIMIT_EXCEEDED | QUOTA_EXCEEDED
| SECURITY_ERROR | TIMEOUT_ERROR | INVALID_RESPONSE | CACHE_ERROR

text \<open>The enum's members are the strings of their names.\<close>

fun code_string :: "WebSearchErrorCode \<Rightarrow> string" where
  "code_string INVALID_PARAMETERS = ''INVALID_PARAMETERS''"
| "code_string API_ERROR = ''API_ERROR''"
| "code_string NETWORK_ERROR = ''NETWORK_ERROR''"
| "code_string RATE_LIMIT_EXCEEDED = ''RATE_LIMIT_EXCEEDED''"
| "code_string QUOTA_EXCEEDED = ''QUOTA_EXCEEDED''"
| "code_string SECURITY_ERROR = ''SECURITY_ERROR''"
| "code_string TIMEOUT_ERROR = ''TIMEOUT_ERROR''"
| "code_string INVALID_RESPONSE = ''INVALID_RESPONSE''"
| "code_string CACHE_ERROR = ''CACHE_ERROR''"

record WebSearchError =
  code :: WebSearchErrorCode
  message :: string
  hint :: "string option"
  details :: "string option"

definition createWebSearchError ::
  "WebSearchErrorCode \<Rightarrow> string \<Rightarrow> string option \<Rightarrow> string option \<Rightarrow> WebSearchError" where
  "createWebSearchError c m h d = \<lparr>code = c, message = m, hint = h, details = d\<rparr>"

text \<open>
  What a \<^verbatim>\<open>throw\<close> or a rejected promise carries: \<open>Error m\<close> is \<^verbatim>\<open>new Error(m)\<close>,
  \<open>TypeError m\<close> the runtime's error for a property read on \<^verbatim>\<open>undefined\<close> or \<^verbatim>\<open>null\<close>,
  \<open>Thrown_WebSearchError\<close> a \<^verbatim>\<open>WebSearchError\<close> object, and \<open>TransportError c r m\<close> what
  the HTTP library rejects with: its \<^verbatim>\<open>code\<close>, its \<^verbatim>\<open>response\<close> (status and status text)
  and its \<^verbatim>\<open>message\<close>.
\<close>

datatype thrown =
  Error string
| TypeError string
| Thrown_WebSearchError WebSearchError
| TransportError "string option" "(int \<times> string) option" string

text \<open>The properties \<^verbatim>\<open>handleApiError\<close> reads off the value it is given.\<close>

fun error_code :: "thrown \<Rightarrow> string option" where
  "error_code (Error m) = None"
| "error_code (TypeError m) = None"
| "error_code (Thrown_WebSearchError e) = Some (code_string (code e))"
| "error_code (TransportError c r m) = c"

fun error_response :: "thrown \<Rightarrow> (int \<times> string) option" where
  "error_response (TransportError c r m) = r"
| "error_response e = None"

fun error_message :: "thrown \<Rightarrow> string" where
  "error_message (Error m) = m"
| "error_message (TypeError m) = m"
| "error_message (Thrown_WebSearchError e) = message e"
| "error_message (TransportError c r m) = m"

text \<open>
  The \<^verbatim>\<open>WebSearchErrorCode\<close> a thrown value carries, as \<^verbatim>\<open>isWebSearchError\<close> reads it:
  only a \<^verbatim>\<open>WebSearchError\<close> object has one.
\<close>

fun web_search_code :: "thrown \<Rightarrow> WebSearchErrorCode option" where
  "web_search_code (Thrown_WebSearchError e) = Some (code e)"
| "web_search_code e = None"

definition handleApiError :: "thrown \<Rightarrow> WebSearchError" where
  "handleApiError error =
     (if error_code error = Some ''ENOTFOUND'' \<or> error_code error = Some ''EAI_AGAIN'' then
        createWebSearchError NETWORK_ERROR
          ''Network error occurred while connecting to the API''
          (Some ''Check your internet connection and try again'') None
      else if error_code error = Some ''ETIMEDOUT'' \<or> error_code error = Some ''ESOCKETTIMEDOUT'' then
        createWebSearchError TIMEOUT_ERROR
          ''Request timed out while connecting to the API''
          (Some ''The API is taking too long to respond. Try again later'') None
      else (case error_response error of
        Some (status, statusText) \<Rightarrow>
          if status = 400 then
            createWebSearchError INVALID_PARAMETERS
              ''Invalid parameters sent to the API''
              (Some ''Check your search parameters and try again'') None
          else if status = 401 \<or> status = 403 then
            createWebSearchError API_ERROR
              ''API authentication failed''
              (Some ''Check your API key and permissions'') None
          else if status = 429 then
            createWebSearchError RATE_LIMIT_EXCEEDED
              ''Rate limit exceeded''
              (Some ''Too many requests. Please wait before trying again'') None
          else if status = 500 \<or> status = 502 \<or> status = 503 \<or> status = 504 then
            createWebSearchError API_ERROR
              ''API service temporarily unavailable''
              (Some ''The service is currently unavailable. Please try again later'') None
          else
            createWebSearchError API_ERROR
              (''API error: '' @ show_int status @ '' '' @ statusText)
              (Some ''An unexpected error occurred with the API'') None
      | None \<Rightarrow>
          if error_message error \<noteq> [] \<and> includes_str (error_message error) ''quota'' then
            createWebSearchError QUOTA_EXCEEDED
              ''API quota exceeded''
              (Some ''Your API quota has been exceeded. Check your plan or try again later'') None
          else
            createWebSearchError API_ERROR
              (or_str (Some (error_message error)) ''An unknown error occurred'')
              (Some ''An unexpected error occurred. Please try again'') None))"

subsection \<open>The world a call runs in\<close>

text \<open>The request bodies of the two endpoints.\<close>

record SearchPayload =
  pl_query :: string
  pl_top_k :: int
  pl_time_range :: time_range
  pl_safe_mode :: bool
  pl_include_snippets :: bool
  pl_site :: "string option"
  pl_lang :: "string option"
  pl_region :: "string option"
  pl_from :: "string option"
  pl_to :: "string option"
  pl_exclude_sites :: "string list option"
  pl_dedupe :: "dedupe option"
  pl_aggregate :: "bool option"

record SonarPayload =
  sp_model :: sonar_model
  sp_query :: string
  sp_search_domain :: string
  sp_citations :: string
  sp_evidence :: "SearchResult list option"

text \<open>
  What a call does to the outside, in order: reads and writes of the cache, and the
  HTTP requests that go out (\<^verbatim>\<open>axios.post\<close> to the search and to the chat endpoint).
\<close>

datatype event =
  CacheGet string
| CacheSet string
| SearchPost SearchPayload
| SonarPost SonarPayload

fun is_post :: "event \<Rightarrow> bool" where
  "is_post (SearchPost p) = True"
| "is_post (SonarPost p) = True"
| "is_post e = False"

text \<open>
  The module's state: the clock, the two singletons \<^verbatim>\<open>rateLimiter\<close> and \<^verbatim>\<open>cache\<close>,
  and the trace of events so far.
\<close>

record World =
  clock :: int
  rateLimiter :: RateLimiter
  cache :: Cache
  trace :: "event list"

text \<open>
  The remote side is a parameter: the answer to the \<open>n\<close>-th request that goes out
  (counted over both endpoints) with a given body is the time in milliseconds until
  the HTTP library settles, and what it settles with: the rejection, or the body of the
  response (\<^verbatim>\<open>result.data\<close>).
\<close>

type_synonym ('p, 'r) endpoint = "nat \<Rightarrow> 'p \<Rightarrow> nat \<times> (thrown + 'r)"

definition posts :: "World \<Rightarrow> nat" where
  "posts w = length (filter is_post (trace w))"

text \<open>
  \<^verbatim>\<open>setTimeout(f, ms)\<close> of the runtime fires after \<open>ms\<close> milliseconds, and after 1 when
  \<open>ms\<close> is \<^verbatim>\<open>NaN\<close>, below 1 or above \<open>2^31 - 1\<close>.
\<close>

definition timer_delay :: "int option \<Rightarrow> int" where
  "timer_delay ms = (case ms of None \<Rightarrow> 1 | Some n \<Rightarrow> if n < 1 \<or> n > 2147483647 then 1 else n)"

definition sleep :: "int option \<Rightarrow> World \<Rightarrow> World" where
  "sleep ms w = w\<lparr>clock := clock w + timer_delay ms\<rparr>"

definition show_number :: "int option \<Rightarrow> string" where
  "show_number ms = (case ms of None \<Rightarrow> ''NaN'' | Some n \<Rightarrow> show_int n)"

text \<open>
  \<^verbatim>\<open>withTimeout(operation, timeoutMs)\<close> around one request: the timer is set, then the
  request goes out. The promise settles with the request's outcome when that comes
  before the timer fires, and with the \<^verbatim>\<open>TIMEOUT_ERROR\<close> otherwise (the timer was set
  first, so it wins a tie). \<open>ev\<close> is the event the request leaves in the trace.
\<close>

definition withTimeout ::
  "('p, 'r) endpoint \<Rightarrow> ('p \<Rightarrow> event) \<Rightarrow> 'p \<Rightarrow> int option \<Rightarrow> World \<Rightarrow> (thrown + 'r) \<times> World" where
  "withTimeout endpoint ev body timeoutMs w =
     (case endpoint (posts w) body of
        (took, outcome) \<Rightarrow>
          if int took < timer_delay timeoutMs
          then (outcome, w\<lparr>clock := clock w + int took, trace := trace w @ [ev body]\<rparr>)
          else (Inl (Thrown_WebSearchError
                  (createWebSearchError TIMEOUT_ERROR
                     (''Operation timed out after '' @ show_number timeoutMs @ ''ms'')
                     (Some ''Try again later or check your network connection'') None)),
                w\<lparr>clock := clock w + timer_delay timeoutMs, trace := trace w @ [ev body]\<rparr>))"

text \<open>
  \<^verbatim>\<open>withRetry(operation, maxRetries, baseDelay)\<close>: the loop
  \<^verbatim>\<open>for (attempt = 0; attempt <= maxRetries; attempt++)\<close>. \<open>retry_loop\<close> is the loop from
  \<open>attempt\<close> on, with \<open>left = maxRetries - attempt\<close> retries left: a success returns, a
  failure of the last attempt is thrown again, any other failure sleeps
  \<^verbatim>\<open>baseDelay * Math.pow(2, attempt)\<close> and goes on.
\<close>

fun retry_loop ::
  "(World \<Rightarrow> (thrown + 'r) \<times> World) \<Rightarrow> int \<Rightarrow> nat \<Rightarrow> nat \<Rightarrow> World \<Rightarrow> (thrown + 'r) \<times> World" where
  "retry_loop operation baseDelay attempt 0 w = operation w"
| "retry_loop operation baseDelay attempt (Suc left) w =
     (case operation w of
        (Inr r, w') \<Rightarrow> (Inr r, w')
      | (Inl error, w') \<Rightarrow>
          retry_loop operation baseDelay (Suc attempt) left
            (sleep (Some (baseDelay * 2 ^ attempt)) w'))"

definition withRetry ::
  "(World \<Rightarrow> (thrown + 'r) \<times> World) \<Rightarrow> nat \<Rightarrow> int \<Rightarrow> World \<Rightarrow> (thrown + 'r) \<times> World" where
  "withRetry operation maxRetries baseDelay w = retry_loop operation baseDelay 0 maxRetries w"

subsection \<open>The environment (utils/helpers.ts)\<close>

text \<open>
  \<^verbatim>\<open>getEnv()\<close> copies \<^verbatim>\<open>process.env\<close>, lays the variables of every \<^verbatim>\<open>.env\<close> file that
  exists over it (\<^verbatim>\<open>Object.assign\<close>, a later file winning), throws when \<^verbatim>\<open>GLM_API_KEY\<close>
  is missing or empty, and returns a new object with six properties. A set of
  variables and an object are maps from names to strings, \<open>None\<close> being \<^verbatim>\<open>undefined\<close>;
  \<open>env_files\<close> are the parsed contents of the files that exist, in the order of
  \<^verbatim>\<open>envPaths\<close>.
\<close>

type_synonym EnvConfig = "string \<rightharpoonup> string"

definition getEnv :: "(string \<rightharpoonup> string) \<Rightarrow> (string \<rightharpoonup> string) list \<Rightarrow> thrown + EnvConfig" where
  "getEnv process_env env_files =
     (let envConfig = foldl (++) process_env env_files
      in if \<not> truthy_str (envConfig ''GLM_API_KEY'')
         then Inl (Error ''GLM_API_KEY environment variable is required'')
         else Inr (Map.empty
                (''GLM_API_KEY'' := envConfig ''GLM_API_KEY'',
                 ''GLM_IMAGE_MODEL'' := envConfig ''GLM_IMAGE_MODEL'',
                 ''GLM_VIDEO_MODEL'' := envConfig ''GLM_VIDEO_MODEL'',
                 ''GLM_GENERATION_MODEL'' := envConfig ''GLM_GENERATION_MODEL'',
                 ''SIYUAN_API_TOKEN'' := envConfig ''SIYUAN_API_TOKEN'',
                 ''SIYUAN_API_BASE'' :=
                   Some (or_str (envConfig ''SIYUAN_API_BASE'') ''http://127.0.0.1:6806''))))"

text \<open>
  The two properties the web-search client reads off the object \<^verbatim>\<open>getEnv()\<close> returned:
  \<^verbatim>\<open>env.PERPLEXITY_API_KEY\<close> and \<^verbatim>\<open>getEnv().WEB_SEARCH_TIMEOUT_MS\<close>.
\<close>

definition PERPLEXITY_API_KEY :: "EnvConfig \<Rightarrow> string option" where
  "PERPLEXITY_API_KEY env = env ''PERPLEXITY_API_KEY''"

definition WEB_SEARCH_TIMEOUT_MS :: "EnvConfig \<Rightarrow> string option" where
  "WEB_SEARCH_TIMEOUT_MS env = env ''WEB_SEARCH_TIMEOUT_MS''"

text \<open>
  The client's functions below take what the \<^verbatim>\<open>getEnv()\<close> of a call gives (the error it
  throws, or the object it returns) as the argument \<open>getEnv_outcome\<close>, the same for the
  whole of one call. In the repository that is \<open>getEnv process_env env_files\<close>.
\<close>

subsection \<open>Search client (client.ts)\<close>

text \<open>
  \<^verbatim>\<open>SearchWebParams\<close>: every field but \<open>q\<close> is optional (\<open>None\<close> is \<^verbatim>\<open>undefined\<close>).
  The source's \<^verbatim>\<open>from\<close> and \<^verbatim>\<open>to\<close> are \<open>date_from\<close> and \<open>date_to\<close> here. \<open>top_k\<close> is a
  whole number.
\<close>

record SearchWebParams =
  q :: string
  top_k :: "int option"
  time_range :: "time_range option"
  site :: "string option"
  lang :: "string option"
  region :: "string option"
  safe_mode :: "bool option"
  include_snippets :: "bool option"
  operators :: "string list option"
  exclude_sites :: "string list option"
  date_from :: "string option"
  date_to :: "string option"
  dedupe :: "dedupe option"
  aggregate :: "bool option"

text \<open>The strings of the two enumerations and of a boolean, as \<^verbatim>\<open>join\<close> writes them.\<close>

fun time_range_string :: "time_range \<Rightarrow> string" where
  "time_range_string TR_any = ''any''"
| "time_range_string TR_day = ''day''"
| "time_range_string TR_week = ''week''"
| "time_range_string TR_month = ''month''"
| "time_range_string TR_year = ''year''"

fun dedupe_string :: "dedupe \<Rightarrow> string" where
  "dedupe_string Dedupe_none = ''none''"
| "dedupe_string Dedupe_domain = ''domain''"
| "dedupe_string Dedupe_title = ''title''"

definition bool_string :: "bool \<Rightarrow> string" where
  "bool_string b = (if b then ''true'' else ''false'')"

text \<open>
  \<^verbatim>\<open>createCacheKey(params)\<close>: the eleven scalar fields in their fixed order, then the
  two arrays when they are there, each joined by a comma; the parts that are
  \<^verbatim>\<open>undefined\<close> are filtered out and the rest is joined by \<^verbatim>\<open>|\<close>.
\<close>

definition createCacheKey :: "'a SearchWebParams_scheme \<Rightarrow> string" where
  "createCacheKey params =
     (let keyParts =
            [Some (q params),
             map_option show_int (top_k params),
             map_option time_range_string (time_range params),
             site params,
             lang params,
             region params,
             map_option bool_string (safe_mode params),
             map_option bool_string (include_snippets params),
             date_from params,
             date_to params,
             map_option dedupe_string (dedupe params)]
            @ (case operators params of None \<Rightarrow> [] | Some ops \<Rightarrow> [Some (join '','' ops)])
            @ (case exclude_sites params of None \<Rightarrow> [] | Some xs \<Rightarrow> [Some (join '','' xs)])
      in join ''|'' (map the (filter (\<lambda>part. part \<noteq> None) keyParts)))"

text \<open>
  The body of the search request. \<^verbatim>\<open>params.top_k || 10\<close> and
  \<^verbatim>\<open>params.time_range || 'any'\<close> take the default for a missing value (and for 0);
  \<^verbatim>\<open>params.safe_mode !== false\<close> is true unless the flag is \<^verbatim>\<open>false\<close>; an optional
  string is copied when it is not empty, \<^verbatim>\<open>exclude_sites\<close> when it has an element,
  \<^verbatim>\<open>dedupe\<close> when it is set, \<^verbatim>\<open>aggregate\<close> when it is not \<^verbatim>\<open>undefined\<close>.
\<close>

definition build_query :: "'a SearchWebParams_scheme \<Rightarrow> string" where
  "build_query params =
     (case operators params of
        None \<Rightarrow> q params
      | Some ops \<Rightarrow> if length ops > 0 then q params @ '' '' @ join '' '' ops else q params)"

definition keep_truthy :: "string option \<Rightarrow> string option" where
  "keep_truthy v = (if truthy_str v then v else None)"

definition build_payload :: "'a SearchWebParams_scheme \<Rightarrow> SearchPayload" where
  "build_payload params =
     \<lparr>pl_query = build_query params,
      pl_top_k = or_default (top_k params) 10,
      pl_time_range = (case time_range params of None \<Rightarrow> TR_any | Some t \<Rightarrow> t),
      pl_safe_mode = (safe_mode params \<noteq> Some False),
      pl_include_snippets = (include_snippets params \<noteq> Some False),
      pl_site = keep_truthy (site params),
      pl_lang = keep_truthy (lang params),
      pl_region = keep_truthy (region params),
      pl_from = keep_truthy (date_from params),
      pl_to = keep_truthy (date_to params),
      pl_exclude_sites =
        (case exclude_sites params of
           None \<Rightarrow> None
         | Some xs \<Rightarrow> if length xs > 0 then Some xs else None),
      pl_dedupe = dedupe params,
      pl_aggregate = aggregate params\<rparr>"

text \<open>
  The body of a search response: \<^verbatim>\<open>response.results\<close> is an array of raw results, or
  it is missing (\<open>None\<close>), and then \<^verbatim>\<open>results.map\<close> throws a \<^verbatim>\<open>TypeError\<close>. A raw
  result has the fields the client reads, each a string (a number for \<open>score\<close>) or
  missing.
\<close>

record RawResult =
  raw_title :: "string option"
  raw_url :: "string option"
  raw_snippet :: "string option"
  raw_published_at :: "string option"
  raw_source :: "string option"
  raw_score :: "real option"

record ApiResponse =
  api_results :: "RawResult list option"

text \<open>
  \<^verbatim>\<open>normalizeResults(results)\<close>: \<^verbatim>\<open>map\<close>, then \<^verbatim>\<open>filter\<close>.
  \<^verbatim>\<open>sanitizeUrl(undefined)\<close> is \<^verbatim>\<open>undefined\<close> (the constructor throws on it), which
  \<^verbatim>\<open>|| ''\<close> makes the empty string; \<^verbatim>\<open>v || null\<close> drops an empty string and a score of 0.
\<close>

definition normalize_one :: "URL_class \<Rightarrow> RawResult \<Rightarrow> SearchResult" where
  "normalize_one U result =
     \<lparr>title = or_str (raw_title result) [],
      url = or_str (map_option (sanitizeUrl U) (raw_url result)) [],
      snippet = or_str (raw_snippet result) [],
      published_at = keep_truthy (raw_published_at result),
      source = keep_truthy (raw_source result),
      score = (case raw_score result of None \<Rightarrow> None | Some x \<Rightarrow> if x = 0 then None else Some x)\<rparr>"

definition normalizeResults :: "URL_class \<Rightarrow> RawResult list \<Rightarrow> SearchResult list" where
  "normalizeResults U rs =
     filter (\<lambda>result. title result \<noteq> [] \<and> url result \<noteq> [] \<and> isValidUrl U (url result))
       (map (normalize_one U) rs)"

text \<open>
  \<^verbatim>\<open>deduplicateResults(results, strategy)\<close>: a \<^verbatim>\<open>filter\<close> whose predicate keeps a
  \<^verbatim>\<open>Set\<close> of the keys seen so far. \<open>dedupe_key\<close> is the key of a result: for
  \<^verbatim>\<open>'domain'\<close> the host name of its URL, and the URL itself when it does not parse; the
  title otherwise.
\<close>

definition dedupe_key :: "URL_class \<Rightarrow> dedupe \<Rightarrow> SearchResult \<Rightarrow> string" where
  "dedupe_key U strategy result =
     (if strategy = Dedupe_domain
      then (case URL_new U (url result) of Some u \<Rightarrow> hostname u | None \<Rightarrow> url result)
      else title result)"

fun dedupe_filter :: "(SearchResult \<Rightarrow> string) \<Rightarrow> string set \<Rightarrow> SearchResult list \<Rightarrow> SearchResult list" where
  "dedupe_filter key seen [] = []"
| "dedupe_filter key seen (result # rest) =
     (if key result \<in> seen then dedupe_filter key seen rest
      else result # dedupe_filter key (insert (key result) seen) rest)"

definition deduplicateResults :: "URL_class \<Rightarrow> SearchResult list \<Rightarrow> dedupe \<Rightarrow> SearchResult list" where
  "deduplicateResults U rs strategy = dedupe_filter (dedupe_key U strategy) {} rs"

text \<open>\<^verbatim>\<open>calculateCost(resultCount)\<close>, with the product taken in the reals.\<close>

definition calculateCost :: "nat \<Rightarrow> real" where
  "calculateCost resultCount = real resultCount * 0.0001"

text \<open>
  \<^verbatim>\<open>makePerplexityRequest(apiKey, payload)\<close>: the time-out is
  \<^verbatim>\<open>parseInt(getEnv().WEB_SEARCH_TIMEOUT_MS || '10000', 10)\<close>, the request runs under
  \<^verbatim>\<open>withRetry(withTimeout(...))\<close> with the default two retries and base delay 1000, and
  whatever is thrown inside is caught and thrown again as \<^verbatim>\<open>handleApiError(error)\<close>.
\<close>

definition request_timeout :: "EnvConfig \<Rightarrow> int option" where
  "request_timeout env = parseInt10 (or_str (WEB_SEARCH_TIMEOUT_MS env) ''10000'')"

definition makePerplexityRequest ::
  "(thrown + EnvConfig) \<Rightarrow> (SearchPayload, ApiResponse) endpoint \<Rightarrow> string \<Rightarrow> SearchPayload
     \<Rightarrow> World \<Rightarrow> (thrown + ApiResponse) \<times> World" where
  "makePerplexityRequest getEnv_outcome search_api apiKey payload w =
     (case getEnv_outcome of
        Inl error \<Rightarrow> (Inl (Thrown_WebSearchError (handleApiError error)), w)
      | Inr env \<Rightarrow>
          (case withRetry (withTimeout search_api SearchPost payload (request_timeout env)) 2 1000 w of
             (Inl error, w') \<Rightarrow> (Inl (Thrown_WebSearchError (handleApiError error)), w')
           | (Inr response, w') \<Rightarrow> (Inr response, w')))"

text \<open>
  \<^verbatim>\<open>searchWeb(params)\<close>. The \<^verbatim>\<open>catch\<close> of the function logs the error and throws it
  again, so every \<open>Inl\<close> below is what the caller gets.
\<close>

definition searchWeb ::
  "URL_class \<Rightarrow> (thrown + EnvConfig) \<Rightarrow> (SearchPayload, ApiResponse) endpoint
     \<Rightarrow> 'a SearchWebParams_scheme \<Rightarrow> World \<Rightarrow> (thrown + SearchWebResult) \<times> World" where
  "searchWeb U getEnv_outcome search_api params w =
     (case checkLimit (clock w) (rateLimiter w) of
        (allowed, rl) \<Rightarrow>
     let w1 = w\<lparr>rateLimiter := rl\<rparr> in
     if \<not> allowed then (Inl (Error ''Rate limit exceeded. Please try again later.''), w1)
     else
     let cacheKey = createCacheKey params in
     (case Cache_get (clock w1) cacheKey (cache w1) of
        (cachedResult, c) \<Rightarrow>
     let w2 = w1\<lparr>cache := c, trace := trace w1 @ [CacheGet cacheKey]\<rparr> in
     (case cachedResult of
        Some cached \<Rightarrow> (Inr (cached\<lparr>meta := (meta cached)\<lparr>cache_hit := True\<rparr>\<rparr>), w2)
      | None \<Rightarrow>
     (case getEnv_outcome of
        Inl error \<Rightarrow> (Inl error, w2)
      | Inr env \<Rightarrow>
     if \<not> truthy_str (PERPLEXITY_API_KEY env)
     then (Inl (Error ''PERPLEXITY_API_KEY is not configured''), w2)
     else
     let apiKey = the (PERPLEXITY_API_KEY env);
         payload = build_payload params;
         startTime = clock w2 in
     (case makePerplexityRequest getEnv_outcome search_api apiKey payload w2 of
        (Inl error, w3) \<Rightarrow> (Inl error, w3)
      | (Inr response, w3) \<Rightarrow>
     let responseTime = clock w3 - startTime in
     (case api_results response of
        None \<Rightarrow> (Inl (TypeError ''Cannot read properties of undefined (reading 'map')''), w3)
      | Some raw \<Rightarrow>
     let normalizedResults = normalizeResults U raw;
         finalResults =
           (case dedupe params of
              None \<Rightarrow> normalizedResults
            | Some strategy \<Rightarrow>
                if strategy \<noteq> Dedupe_none
                then deduplicateResults U normalizedResults strategy
                else normalizedResults);
         result =
           \<lparr>results = finalResults,
            meta = \<lparr>query = q params,
                    meta_top_k = or_default (top_k params) 10,
                    meta_time_range = (case time_range params of None \<Rightarrow> TR_any | Some t \<Rightarrow> t),
                    cost_estimate = calculateCost (length normalizedResults),
                    cache_hit = False,
                    response_time = responseTime\<rparr>,
            clusters = None, highlights = None, citations = None\<rparr>;
         w4 = w3\<lparr>cache := Cache_set (clock w3) cacheKey result None (cache w3),
                 trace := trace w3 @ [CacheSet cacheKey]\<rparr>;
         w5 = w4\<lparr>rateLimiter := increment (clock w4) (rateLimiter w4)\<rparr>
     in (Inr result, w5)))))))"

subsection \<open>Sonar answer client (sonar-client.ts)\<close>

record SonarSearchParams = SearchWebParams +
  sonar_model :: "sonar_model option"

text \<open>
  The body of a chat response, as far as \<^verbatim>\<open>normalizeSonarResults\<close> looks into it. A
  field that is not an array is \<open>None\<close>. An element of \<^verbatim>\<open>choices\<close> is \<^verbatim>\<open>null\<close>
  (or \<^verbatim>\<open>undefined\<close>), a string, or an object whose \<^verbatim>\<open>message.content\<close> is a string or
  missing. An element of \<^verbatim>\<open>citations\<close> is \<^verbatim>\<open>null\<close> (or \<^verbatim>\<open>undefined\<close>) or a value
  with the three fields, each a string or missing (a citation that is a bare string
  has none of them). An element of \<^verbatim>\<open>highlights\<close> is a string or something else.
\<close>

datatype RawChoice = ChoiceNull | ChoiceString string | ChoiceObject "string option"

datatype RawCitation = CitationNull | CitationObject "string option" "string option" "string option"

datatype RawHighlight = HighlightString string | HighlightOther

record SonarResponse =
  choices :: "RawChoice list option"
  answer :: "string option"
  raw_citations :: "RawCitation list option"
  raw_highlights :: "RawHighlight list option"
  raw_clusters :: "string list option"

text \<open>
  The object \<^verbatim>\<open>normalizeSonarResults\<close> returns. The caller reads its fields with
  \<^verbatim>\<open>||\<close>, so each is optional here; the function itself always sets them.
\<close>

record NormalizedSonar =
  n_answer :: string
  n_clusters :: "string list option"
  n_highlights :: "string list option"
  n_citations :: "SearchResult list option"

text \<open>
  \<^verbatim>\<open>a || b\<close> for an optional array: \<open>b\<close> when \<open>a\<close> is \<^verbatim>\<open>undefined\<close>, and \<open>a\<close> when it is
  an array. Every array is truthy in JavaScript, the empty one too.
\<close>

definition or_array :: "'a list option \<Rightarrow> 'a list \<Rightarrow> 'a list" where
  "or_array a b = (case a of None \<Rightarrow> b | Some xs \<Rightarrow> xs)"

text \<open>The answer text: the first choice when there is one, the \<^verbatim>\<open>answer\<close> field otherwise.\<close>

definition extract_answer :: "SonarResponse \<Rightarrow> thrown + string" where
  "extract_answer sonarResult =
     (case choices sonarResult of
        Some (choice # _) \<Rightarrow>
          (case choice of
             ChoiceNull \<Rightarrow> Inl (TypeError ''Cannot read properties of null (reading 'message')'')
           | ChoiceObject content \<Rightarrow> Inr (or_str content [])
           | ChoiceString s \<Rightarrow> Inr s)
      | _ \<Rightarrow> Inr (or_str (answer sonarResult) []))"

text \<open>
  One citation: \<^verbatim>\<open>{ title: c.title || '', url: c.url || '', snippet: c.snippet || '' }\<close>;
  reading a field of \<^verbatim>\<open>null\<close> throws. The other fields of a \<open>SearchResult\<close> are not
  set.
\<close>

fun normalize_citation :: "RawCitation \<Rightarrow> thrown + SearchResult" where
  "normalize_citation CitationNull =
     Inl (TypeError ''Cannot read properties of null (reading 'title')'')"
| "normalize_citation (CitationObject t u s) =
     Inr \<lparr>title = or_str t [], url = or_str u [], snippet = or_str s [],
          published_at = None, source = None, score = None\<rparr>"

text \<open>\<^verbatim>\<open>citations.map(...)\<close>: the first element that throws ends the map.\<close>

fun map_citations :: "RawCitation list \<Rightarrow> thrown + SearchResult list" where
  "map_citations [] = Inr []"
| "map_citations (c # cs) =
     (case normalize_citation c of
        Inl error \<Rightarrow> Inl error
      | Inr r \<Rightarrow> (case map_citations cs of Inl error \<Rightarrow> Inl error | Inr rs \<Rightarrow> Inr (r # rs)))"

fun highlight_strings :: "RawHighlight list \<Rightarrow> string list" where
  "highlight_strings [] = []"
| "highlight_strings (HighlightString s # hs) = s # highlight_strings hs"
| "highlight_strings (HighlightOther # hs) = highlight_strings hs"

text \<open>
  \<^verbatim>\<open>normalizeSonarResults(sonarResult)\<close>; \<open>None\<close> is a falsy body. Each of the three
  arrays starts as \<^verbatim>\<open>[]\<close> and is replaced when the response has an array there.
\<close>

definition normalizeSonarResults :: "SonarResponse option \<Rightarrow> thrown + NormalizedSonar" where
  "normalizeSonarResults body =
     (case body of
        None \<Rightarrow> Inr \<lparr>n_answer = [], n_clusters = Some [], n_highlights = Some [], n_citations = Some []\<rparr>
      | Some sonarResult \<Rightarrow>
          (case extract_answer sonarResult of
             Inl error \<Rightarrow> Inl error
           | Inr a \<Rightarrow>
               (case (case raw_citations sonarResult of
                        None \<Rightarrow> Inr []
                      | Some cs \<Rightarrow> map_citations cs) of
                  Inl error \<Rightarrow> Inl error
                | Inr cits \<Rightarrow>
                    Inr \<lparr>n_answer = a,
                         n_clusters = Some (case raw_clusters sonarResult of None \<Rightarrow> [] | Some cl \<Rightarrow> cl),
                         n_highlights =
                           Some (case raw_highlights sonarResult of
                                   None \<Rightarrow> [] | Some hs \<Rightarrow> highlight_strings hs),
                         n_citations = Some cits\<rparr>)))"





subsection \<open>Example data\<close>

text \<open>
  Concrete values at which the theorems below are instantiated: a limiter with room
  for two requests per second, a response, a URL class that knows a handful of
  addresses (and serialises a URL without credentials, port, query and fragment), a
  process environment, and endpoints that answer at once.
\<close>

definition example_limiter :: RateLimiter where
  "example_limiter = \<lparr>requests = [], limit = 2, windowMs = 1000, retryAfterMs = 1000\<rparr>"

definition example_response :: SearchWebResult where
  "example_response =
     \<lparr>results = [],
      meta = \<lparr>query = ''q'', meta_top_k = 10, meta_time_range = TR_any, cost_estimate = 0,
               cache_hit = False, response_time = 0\<rparr>,
      clusters = None, highlights = None, citations = None\<rparr>"

definition example_url :: "string \<Rightarrow> string \<Rightarrow> string \<Rightarrow> URL" where
  "example_url scheme host path =
     \<lparr>protocol = scheme, username = [], password = [], hostname = host, port = [],
      pathname = path, search = [], hash = []\<rparr>"

definition example_URL :: URL_class where
  "example_URL =
     \<lparr>URL_new = (\<lambda>s.
        if s = ''https://example.com/path'' then Some (example_url ''https:'' ''example.com'' ''/path'')
        else if s = ''http://example.com/path'' then Some (example_url ''http:'' ''example.com'' ''/path'')
        else if s = ''https://127.0.0.1/admin'' then Some (example_url ''https:'' ''127.0.0.1'' ''/admin'')
        else if s = ''https://a.example/x'' then Some (example_url ''https:'' ''a.example'' ''/x'')
        else if s = ''https://a.example/y'' then Some (example_url ''https:'' ''a.example'' ''/y'')
        else if s = ''https://b.example/'' then Some (example_url ''https:'' ''b.example'' ''/'')
        else None),
      URL_toString = (\<lambda>u. protocol u @ ''//'' @ hostname u @ pathname u)\<rparr>"

text \<open>A process environment in which both keys are set; there is no \<^verbatim>\<open>.env\<close> file.\<close>

definition example_process_env :: "string \<rightharpoonup> string" where
  "example_process_env =
     Map.empty(''GLM_API_KEY'' := Some ''glm-key'', ''PERPLEXITY_API_KEY'' := Some ''pplx-key'')"

definition example_raw :: "string \<Rightarrow> string \<Rightarrow> RawResult" where
  "example_raw t u =
     \<lparr>raw_title = Some t, raw_url = Some u, raw_snippet = None, raw_published_at = None,
      raw_source = None, raw_score = None\<rparr>"

definition example_result :: "string \<Rightarrow> string \<Rightarrow> SearchResult" where
  "example_result t u =
     \<lparr>title = t, url = u, snippet = [], published_at = None, source = None, score = None\<rparr>"

definition example_search_api :: "(SearchPayload, ApiResponse) endpoint" where
  "example_search_api n body =
     (120, Inr \<lparr>api_results = Some [example_raw ''Ownership'' ''https://a.example/x'',
                                    example_raw ''Borrowing'' ''https://a.example/y'']\<rparr>)"


definition example_params :: SearchWebParams where
  "example_params =
     \<lparr>q = ''rust ownership'', top_k = None, time_range = None, site = None, lang = None,
      region = None, safe_mode = None, include_snippets = None, operators = None,
      exclude_sites = None, date_from = None, date_to = None, dedupe = None, aggregate = None\<rparr>"

definition example_world :: World where
  "example_world =
     \<lparr>clock = 5000, rateLimiter = example_limiter,
      cache = \<lparr>entries = [], defaultTtl = 1800000\<rparr>, trace = []\<rparr>"

text \<open>The same world with two requests recorded in the last second: the limiter is full.\<close>

definition busy_world :: World where
  "busy_world = example_world\<lparr>rateLimiter := example_limiter\<lparr>requests := [4500, 4800]\<rparr>\<rparr>"



text \<open>The example world with a response cached one second ago under the example key.\<close>

definition cached_world :: World where
  "cached_world =
     example_world\<lparr>cache :=
       \<lparr>entries = [(''rust ownership'', \<lparr>data = example_response, timestamp = 4000, ttl = 1800000\<rparr>)],
        defaultTtl = 1800000\<rparr>\<rparr>"





section \<open>Properties\<close>

subsection \<open>The rate limiter\<close>

lemma checkLimit_eq:
  "checkLimit now rl =
     (int (length (filter (\<lambda>t. now - t < windowMs rl) (requests rl))) < limit rl,
      rl\<lparr>requests := filter (\<lambda>t. now - t < windowMs rl) (requests rl)\<rparr>)"
  by (simp add: checkLimit_def Let_def)

lemma fst_admit_all_Cons:
  "fst (admit_all (t # ts) rl) = fst (admit_at t rl) # fst (admit_all ts (snd (admit_at t rl)))"
  by (simp split: prod.splits)

lemma admit_all_window:
  "\<lbrakk>\<forall>r\<in>set (requests rl). \<forall>t\<in>set ts. t - r < windowMs rl;
    \<forall>t\<in>set ts. \<forall>t'\<in>set ts. t' - t < windowMs rl\<rbrakk>
   \<Longrightarrow> fst (admit_all ts rl) = map (\<lambda>i. int (length (requests rl) + i) < limit rl) [0..<length ts]"
proof (induction ts arbitrary: rl)
  case Nil
  then show ?case by simp
next
  case (Cons t ts)
  let ?n = "length (requests rl)"
  have keep: "filter (\<lambda>r. t - r < windowMs rl) (requests rl) = requests rl"
    using Cons.prems(1) by (auto simp: filter_id_conv)
  have shift: "map (\<lambda>i. int (?n + i) < limit rl) [0..<length (t # ts)]
       = (int ?n < limit rl) # map (\<lambda>i. int (?n + Suc i) < limit rl) [0..<length ts]"
    by (auto simp add: upt_conv_Cons map_Suc_upt [symmetric] simp del: upt_Suc)
  show ?case
  proof (cases "int ?n < limit rl")
    case True
    let ?rl = "increment t rl"
    have step: "admit_at t rl = (True, ?rl)"
      using True keep by (simp add: admit_at_def checkLimit_eq)
    have p1: "\<forall>r\<in>set (requests ?rl). \<forall>t'\<in>set ts. t' - r < windowMs ?rl"
      using Cons.prems by (auto simp: increment_def)
    have p2: "\<forall>a\<in>set ts. \<forall>b\<in>set ts. b - a < windowMs ?rl"
      using Cons.prems(2) by (simp add: increment_def)
    have "fst (admit_all ts ?rl) =
        map (\<lambda>i. int (length (requests ?rl) + i) < limit ?rl) [0..<length ts]"
      by (rule Cons.IH [OF p1 p2])
    then have ih: "fst (admit_all ts ?rl) = map (\<lambda>i. int (?n + Suc i) < limit rl) [0..<length ts]"
      by (simp add: increment_def)
    have "fst (admit_all (t # ts) rl) = True # fst (admit_all ts ?rl)"
      by (simp only: fst_admit_all_Cons step fst_conv snd_conv)
    also have "\<dots> = (int ?n < limit rl) # map (\<lambda>i. int (?n + Suc i) < limit rl) [0..<length ts]"
      using True ih by simp
    finally show ?thesis by (simp only: shift)
  next
    case False
    have step: "admit_at t rl = (False, rl)"
      using False keep by (simp add: admit_at_def checkLimit_eq)
    have p1: "\<forall>r\<in>set (requests rl). \<forall>t'\<in>set ts. t' - r < windowMs rl"
      using Cons.prems(1) by simp
    have p2: "\<forall>a\<in>set ts. \<forall>b\<in>set ts. b - a < windowMs rl"
      using Cons.prems(2) by simp
    have ih: "fst (admit_all ts rl) =
        map (\<lambda>i. int (?n + i) < limit rl) [0..<length ts]"
      by (rule Cons.IH [OF p1 p2])
    have same: "map (\<lambda>i. int (?n + i) < limit rl) [0..<length ts]
        = map (\<lambda>i. int (?n + Suc i) < limit rl) [0..<length ts]"
      using False by simp
    have "fst (admit_all (t # ts) rl) = False # fst (admit_all ts rl)"
      by (simp only: fst_admit_all_Cons step fst_conv snd_conv)
    also have "\<dots> = (int ?n < limit rl) # map (\<lambda>i. int (?n + Suc i) < limit rl) [0..<length ts]"
      using False ih same by simp
    finally show ?thesis by (simp only: shift)
  qed
qed


text \<open>
  C5. \<open>checkLimit\<close> first drops every recorded timestamp whose age is not below
  \<open>windowMs\<close> (so none older than \<open>windowMs\<close> is left) and then answers whether the
  number of timestamps left is below \<open>limit\<close>. Consequently a limiter with fewer than
  \<open>limit\<close> recorded requests admits the next call, and when a fresh limiter is asked
  at clock values that lie within one window of each other, each admitted call being
  recorded, the first \<open>limit\<close> calls are admitted and every later one is refused.
\<close>

theorem checkLimit_prunes_then_compares:
  "checkLimit now rl =
     (int (length (filter (\<lambda>t. now - t < windowMs rl) (requests rl))) < limit rl,
      rl\<lparr>requests := filter (\<lambda>t. now - t < windowMs rl) (requests rl)\<rparr>)
   \<and> (\<forall>t \<in> set (requests (snd (checkLimit now rl))). \<not> windowMs rl < now - t)
   \<and> (int (length (requests rl)) < limit rl \<longrightarrow> fst (checkLimit now rl))
   \<and> (requests rl = [] \<and> (\<forall>t \<in> set ts. \<forall>t' \<in> set ts. t' - t < windowMs rl)
        \<longrightarrow> fst (admit_all ts rl) = map (\<lambda>i. int i < limit rl) [0..<length ts])"
proof -
  have a: "int (length (requests rl)) < limit rl \<longrightarrow> fst (checkLimit now rl)"
  proof
    assume h: "int (length (requests rl)) < limit rl"
    have "length (filter (\<lambda>t. now - t < windowMs rl) (requests rl)) \<le> length (requests rl)"
      by (rule length_filter_le)
    with h have "int (length (filter (\<lambda>t. now - t < windowMs rl) (requests rl))) < limit rl"
      by linarith
    then show "fst (checkLimit now rl)" by (simp add: checkLimit_eq)
  qed
  have b: "requests rl = [] \<and> (\<forall>t \<in> set ts. \<forall>t' \<in> set ts. t' - t < windowMs rl)
        \<longrightarrow> fst (admit_all ts rl) = map (\<lambda>i. int i < limit rl) [0..<length ts]"
  proof
    assume h: "requests rl = [] \<and> (\<forall>t \<in> set ts. \<forall>t' \<in> set ts. t' - t < windowMs rl)"
    then have "\<forall>r\<in>set (requests rl). \<forall>t\<in>set ts. t - r < windowMs rl" by simp
    from admit_all_window [OF this] h
    show "fst (admit_all ts rl) = map (\<lambda>i. int i < limit rl) [0..<length ts]" by simp
  qed
  show ?thesis using a b by (auto simp: checkLimit_eq)
qed

theorem checkLimit_prunes_then_compares_witness:
  "checkLimit 1500 (example_limiter\<lparr>requests := [100, 600, 1200]\<rparr>)
     = (False, example_limiter\<lparr>requests := [600, 1200]\<rparr>)
   \<and> fst (checkLimit 1500 (example_limiter\<lparr>requests := [1200]\<rparr>))
   \<and> fst (admit_all [0, 10, 999] example_limiter) = [True, True, False]"
  using checkLimit_prunes_then_compares [of 1500 "example_limiter\<lparr>requests := [100, 600, 1200]\<rparr>" "[]"]
    checkLimit_prunes_then_compares [of 1500 "example_limiter\<lparr>requests := [1200]\<rparr>" "[]"]
    checkLimit_prunes_then_compares [of 0 example_limiter "[0, 10, 999]"]
  by (simp add: example_limiter_def upt_conv_Cons)

subsection \<open>The cache\<close>

text \<open>
  C7, as the spec words it (\<^verbatim>\<open>ttl ?? defaultTtl\<close>), fails for an explicit \<open>ttl\<close> of 0:
  the entry gets \<open>defaultTtl\<close>, where the spec's expression gives 0.
\<close>

theorem Cache_set_zero_ttl_counterexample:
  "map_of (entries (Cache_set 1000 ''k'' example_response (Some 0) \<lparr>entries = [], defaultTtl = 1800000\<rparr>)) ''k''
     = Some \<lparr>data = example_response, timestamp = 1000, ttl = 1800000\<rparr>
   \<and> map_of (entries (Cache_set 1000 ''k'' example_response (Some 0) \<lparr>entries = [], defaultTtl = 1800000\<rparr>)) ''k''
     \<noteq> Some \<lparr>data = example_response, timestamp = 1000, ttl = nullish_default (Some 0) 1800000\<rparr>"
  by (simp add: Cache_set_def or_default_def nullish_default_def)

text \<open>
  C7, amended. \<open>Cache_set\<close> makes the key map to the entry with the data, the current
  time and \<^verbatim>\<open>ttl || defaultTtl\<close> (the given \<open>ttl\<close> when it is there and not 0, and
  \<open>defaultTtl\<close> otherwise), whatever the key mapped to before; no other key changes.
\<close>

theorem Cache_set_stores_entry:
  "map_of (entries (Cache_set now key d ttl_arg c)) =
     (map_of (entries c))
       (key \<mapsto> \<lparr>data = d, timestamp = now,
                 ttl = (case ttl_arg of None \<Rightarrow> defaultTtl c
                        | Some n \<Rightarrow> if n = 0 then defaultTtl c else n)\<rparr>)
   \<and> defaultTtl (Cache_set now key d ttl_arg c) = defaultTtl c"
  by (simp add: Cache_set_def or_default_def update_conv')

subsection \<open>The URL filter\<close>

lemma isForbiddenIP_loopback: "isForbiddenIP ''127.0.0.1''"
  by code_simp

lemma isForbiddenIP_private: "isForbiddenIP ''10.0.0.5''"
  by code_simp

lemma not_isForbiddenIP_example: "\<not> isForbiddenIP ''example.com''"
  by code_simp

lemma isValidUrl_parsed:
  "URL_new U s = Some u \<Longrightarrow>
   isValidUrl U s = (protocol u = ''https:'' \<and> hostname u \<notin> set FORBIDDEN_HOSTNAMES
                      \<and> \<not> isForbiddenIP (hostname u))"
  by (simp add: isValidUrl_def ALLOWED_PROTOCOLS_def)

text \<open>
  C6. Whatever the URL parses to, \<open>isValidUrl\<close> is false when the host name is
  \<open>127.0.0.1\<close>, \<open>169.254.169.254\<close>, \<open>10.0.0.5\<close> or \<open>metadata.google.internal\<close> (path and
  query play no part), and false when the scheme is not \<open>https:\<close>; it is true for
  \<open>https://example.com/path\<close>, which parses to the scheme \<open>https:\<close> and the host
  \<open>example.com\<close>.
\<close>

theorem isValidUrl_hosts_and_scheme:
  "(URL_new U s = Some u
      \<and> hostname u \<in> {''127.0.0.1'', ''169.254.169.254'', ''10.0.0.5'', ''metadata.google.internal''}
      \<longrightarrow> \<not> isValidUrl U s)
   \<and> (URL_new U ''https://example.com/path'' = Some u'
        \<and> protocol u' = ''https:'' \<and> hostname u' = ''example.com''
      \<longrightarrow> isValidUrl U ''https://example.com/path'')
   \<and> (URL_new U s'' = Some u'' \<and> protocol u'' \<noteq> ''https:'' \<longrightarrow> \<not> isValidUrl U s'')"
proof -
  have hosts: "\<not> isValidUrl U s"
    if "URL_new U s = Some u"
      and "hostname u \<in> {''127.0.0.1'', ''169.254.169.254'', ''10.0.0.5'', ''metadata.google.internal''}"
    using that isForbiddenIP_loopback isForbiddenIP_private
    by (auto simp: isValidUrl_parsed FORBIDDEN_HOSTNAMES_def)
  have ok: "isValidUrl U ''https://example.com/path''"
    if "URL_new U ''https://example.com/path'' = Some u'" and "protocol u' = ''https:''"
      and "hostname u' = ''example.com''"
    using that not_isForbiddenIP_example
    by (simp add: isValidUrl_parsed FORBIDDEN_HOSTNAMES_def)
  have scheme: "\<not> isValidUrl U s''" if "URL_new U s'' = Some u''" and "protocol u'' \<noteq> ''https:''"
    using that by (simp add: isValidUrl_parsed)
  show ?thesis using hosts ok scheme by blast
qed

theorem isValidUrl_hosts_and_scheme_witness:
  "\<not> isValidUrl example_URL ''https://127.0.0.1/admin''
   \<and> isValidUrl example_URL ''https://example.com/path''
   \<and> \<not> isValidUrl example_URL ''http://example.com/path''"
  using isValidUrl_hosts_and_scheme [of example_URL "''https://127.0.0.1/admin''"
      "example_url ''https:'' ''127.0.0.1'' ''/admin''"
      "example_url ''https:'' ''example.com'' ''/path''"
      "''http://example.com/path''" "example_url ''http:'' ''example.com'' ''/path''"]
  by (simp add: example_URL_def example_url_def)

subsection \<open>Deduplication\<close>

lemma dedupe_filter_keys_fresh:
  "key ` set (dedupe_filter key seen xs) \<inter> seen = {}"
  by (induction xs arbitrary: seen) auto

lemma dedupe_filter_distinct:
  "distinct (map key (dedupe_filter key seen xs))"
proof (induction xs arbitrary: seen)
  case Nil
  show ?case by simp
next
  case (Cons x xs)
  have "key x \<notin> key ` set (dedupe_filter key (insert (key x) seen) xs)"
    using dedupe_filter_keys_fresh [of key "insert (key x) seen" xs] by auto
  with Cons.IH show ?case by simp
qed

lemma dedupe_filter_id:
  "distinct (map key xs) \<Longrightarrow> key ` set xs \<inter> seen = {} \<Longrightarrow> dedupe_filter key seen xs = xs"
  by (induction xs arbitrary: seen) auto

lemma dedupe_filter_subseq: "subseq (dedupe_filter key seen xs) xs"
  by (induction xs arbitrary: seen) auto

lemma dedupe_filter_none:
  "k \<in> seen \<Longrightarrow> filter (\<lambda>x. key x = k) (dedupe_filter key seen xs) = []"
  using dedupe_filter_keys_fresh [of key seen xs] by (auto simp: filter_empty_conv)

lemma dedupe_filter_first:
  "k \<notin> seen \<Longrightarrow>
   filter (\<lambda>x. key x = k) (dedupe_filter key seen xs)
     = (case find (\<lambda>x. key x = k) xs of None \<Rightarrow> [] | Some r \<Rightarrow> [r])"
proof (induction xs arbitrary: seen)
  case Nil
  show ?case by simp
next
  case (Cons x xs)
  show ?case
  proof (cases "key x = k")
    case True
    then show ?thesis using Cons.prems by (simp add: dedupe_filter_none)
  next
    case False
    then show ?thesis using Cons.prems Cons.IH by simp
  qed
qed

text \<open>
  C9. For either strategy, deduplicating the output of \<open>deduplicateResults\<close> again
  changes nothing; the output is a subsequence of the input (the order of first
  appearance is kept); and for every key the output holds exactly the first input
  element with that key (and nothing for a key that no element has). The key is the
  parsed host name, or the URL string itself when it does not parse, for \<open>domain\<close>, and
  the title for \<open>title\<close>.
\<close>

theorem deduplicateResults_idempotent_first_seen:
  "deduplicateResults U (deduplicateResults U rs strategy) strategy = deduplicateResults U rs strategy
   \<and> subseq (deduplicateResults U rs strategy) rs
   \<and> filter (\<lambda>x. dedupe_key U strategy x = k) (deduplicateResults U rs strategy)
       = (case find (\<lambda>x. dedupe_key U strategy x = k) rs of None \<Rightarrow> [] | Some r \<Rightarrow> [r])
   \<and> dedupe_key U Dedupe_domain x
       = (case URL_new U (url x) of Some u \<Rightarrow> hostname u | None \<Rightarrow> url x)
   \<and> dedupe_key U Dedupe_title x = title x"
proof -
  let ?key = "dedupe_key U strategy"
  have "dedupe_filter ?key {} (dedupe_filter ?key {} rs) = dedupe_filter ?key {} rs"
    by (rule dedupe_filter_id) (simp_all add: dedupe_filter_distinct)
  then have idem: "deduplicateResults U (deduplicateResults U rs strategy) strategy
      = deduplicateResults U rs strategy"
    by (simp add: deduplicateResults_def)
  have order: "subseq (deduplicateResults U rs strategy) rs"
    by (simp add: deduplicateResults_def dedupe_filter_subseq)
  have first: "filter (\<lambda>x. ?key x = k) (deduplicateResults U rs strategy)
       = (case find (\<lambda>x. ?key x = k) rs of None \<Rightarrow> [] | Some r \<Rightarrow> [r])"
    unfolding deduplicateResults_def by (rule dedupe_filter_first) simp
  have keys: "dedupe_key U Dedupe_domain x
       = (case URL_new U (url x) of Some u \<Rightarrow> hostname u | None \<Rightarrow> url x)
     \<and> dedupe_key U Dedupe_title x = title x"
    by (simp add: dedupe_key_def)
  show ?thesis using idem order first keys by blast
qed

theorem deduplicateResults_idempotent_first_seen_witness:
  "deduplicateResults example_URL
     [example_result ''Ownership'' ''https://a.example/x'',
      example_result ''Borrowing'' ''https://a.example/y'',
      example_result ''Ownership'' ''https://b.example/'',
      example_result ''Lifetimes'' ''not a url''] Dedupe_domain
   = [example_result ''Ownership'' ''https://a.example/x'',
      example_result ''Ownership'' ''https://b.example/'',
      example_result ''Lifetimes'' ''not a url'']
   \<and> deduplicateResults example_URL
     [example_result ''Ownership'' ''https://a.example/x'',
      example_result ''Ownership'' ''https://b.example/'',
      example_result ''Lifetimes'' ''not a url''] Dedupe_domain
   = [example_result ''Ownership'' ''https://a.example/x'',
      example_result ''Ownership'' ''https://b.example/'',
      example_result ''Lifetimes'' ''not a url'']"
  using deduplicateResults_idempotent_first_seen [of example_URL
     "[example_result ''Ownership'' ''https://a.example/x'',
      example_result ''Borrowing'' ''https://a.example/y'',
      example_result ''Ownership'' ''https://b.example/'',
      example_result ''Lifetimes'' ''not a url'']" Dedupe_domain]
  by (simp add: deduplicateResults_def dedupe_key_def example_URL_def example_result_def example_url_def)

subsection \<open>The paths through the search client\<close>

text \<open>What a request under time-out and retry leaves behind: time passes and posts are
  appended to the trace; the limiter and the cache are not touched.\<close>

lemma withTimeout_frame:
  assumes "withTimeout endpoint ev body timeoutMs w = (r, w')"
  shows "rateLimiter w' = rateLimiter w \<and> cache w' = cache w \<and> trace w' = trace w @ [ev body]"
  using assms by (auto simp: withTimeout_def split: prod.splits if_splits)

lemma retry_loop_frame:
  assumes "retry_loop operation baseDelay attempt left w = (r, w')"
    and "\<And>v s v'. operation v = (s, v') \<Longrightarrow>
           rateLimiter v' = rateLimiter v \<and> cache v' = cache v
           \<and> (\<exists>evs. trace v' = trace v @ evs \<and> list_all P evs)"
  shows "rateLimiter w' = rateLimiter w \<and> cache w' = cache w
         \<and> (\<exists>evs. trace w' = trace w @ evs \<and> list_all P evs)"
  using assms(1)
proof (induction left arbitrary: attempt w)
  case 0
  then show ?case using assms(2) by simp
next
  case (Suc left)
  obtain s v where op: "operation w = (s, v)" by (cases "operation w")
  note f1 = assms(2) [OF op]
  show ?case
  proof (cases s)
    case (Inr x)
    with Suc.prems op have "w' = v" by simp
    with f1 show ?thesis by simp
  next
    case (Inl e)
    let ?v = "sleep (Some (baseDelay * 2 ^ attempt)) v"
    from Suc.prems op Inl have "retry_loop operation baseDelay (Suc attempt) left ?v = (r, w')"
      by simp
    from Suc.IH [OF this]
    have f2: "rateLimiter w' = rateLimiter ?v \<and> cache w' = cache ?v
         \<and> (\<exists>evs. trace w' = trace ?v @ evs \<and> list_all P evs)" .
    have sl: "rateLimiter ?v = rateLimiter v \<and> cache ?v = cache v \<and> trace ?v = trace v"
      by (simp add: sleep_def)
    from f1 obtain e1 where e1: "trace v = trace w @ e1" "list_all P e1" by blast
    from f2 sl obtain e2 where e2: "trace w' = trace v @ e2" "list_all P e2" by auto
    have "trace w' = trace w @ (e1 @ e2) \<and> list_all P (e1 @ e2)"
      using e1 e2 by simp
    then show ?thesis using f1 f2 sl by metis
  qed
qed

lemma makePerplexityRequest_frame:
  assumes "makePerplexityRequest getEnv_outcome search_api apiKey payload w = (r, w')"
  shows "rateLimiter w' = rateLimiter w \<and> cache w' = cache w
         \<and> (\<exists>evs. trace w' = trace w @ evs \<and> list_all is_post evs)"
proof (cases getEnv_outcome)
  case (Inl e)
  with assms show ?thesis by (simp add: makePerplexityRequest_def)
next
  case (Inr env)
  obtain s v where run:
    "withRetry (withTimeout search_api SearchPost payload (request_timeout env)) 2 1000 w = (s, v)"
    by (cases "withRetry (withTimeout search_api SearchPost payload (request_timeout env)) 2 1000 w")
  have step: "rateLimiter v' = rateLimiter v0 \<and> cache v' = cache v0
           \<and> (\<exists>evs. trace v' = trace v0 @ evs \<and> list_all is_post evs)"
    if "withTimeout search_api SearchPost payload (request_timeout env) v0 = (s0, v')" for v0 s0 v'
    using withTimeout_frame [OF that] by simp
  have "rateLimiter v = rateLimiter w \<and> cache v = cache w
         \<and> (\<exists>evs. trace v = trace w @ evs \<and> list_all is_post evs)"
    using run step unfolding withRetry_def by (rule retry_loop_frame)
  moreover have "w' = v"
    using assms Inr run by (auto simp: makePerplexityRequest_def split: sum.splits)
  ultimately show ?thesis by simp
qed

lemma makePerplexityRequest_error:
  assumes "makePerplexityRequest getEnv_outcome search_api apiKey payload w = (Inl e, w')"
  shows "\<exists>e0. e = Thrown_WebSearchError (handleApiError e0)"
  using assms by (auto simp: makePerplexityRequest_def split: sum.splits prod.splits)


lemma searchWeb_refused:
  assumes "\<not> fst (checkLimit (clock w) (rateLimiter w))"
  shows "searchWeb U getEnv_outcome search_api params w =
     (Inl (Error ''Rate limit exceeded. Please try again later.''),
      w\<lparr>rateLimiter := snd (checkLimit (clock w) (rateLimiter w))\<rparr>)"
proof -
  obtain allowed rl where c: "checkLimit (clock w) (rateLimiter w) = (allowed, rl)"
    by (cases "checkLimit (clock w) (rateLimiter w)")
  with assms show ?thesis by (simp add: searchWeb_def)
qed

lemma searchWeb_hit:
  assumes "fst (checkLimit (clock w) (rateLimiter w))"
    and "map_of (entries (cache w)) (createCacheKey params) = Some entry"
    and "\<not> expired (clock w) entry"
  shows "searchWeb U getEnv_outcome search_api params w =
     (Inr ((data entry)\<lparr>meta := (meta (data entry))\<lparr>cache_hit := True\<rparr>\<rparr>),
      w\<lparr>rateLimiter := snd (checkLimit (clock w) (rateLimiter w)),
        trace := trace w @ [CacheGet (createCacheKey params)]\<rparr>)"
proof -
  obtain allowed rl where c: "checkLimit (clock w) (rateLimiter w) = (allowed, rl)"
    by (cases "checkLimit (clock w) (rateLimiter w)")
  with assms show ?thesis by (simp add: searchWeb_def Cache_get_def)
qed

text \<open>The world after the limiter's check and the cache lookup of a call that was admitted.\<close>

lemma searchWeb_admitted:
  assumes "fst (checkLimit (clock w) (rateLimiter w))"
  shows "searchWeb U getEnv_outcome search_api params w =
    (let cacheKey = createCacheKey params;
         w2 = w\<lparr>rateLimiter := snd (checkLimit (clock w) (rateLimiter w)),
                cache := snd (Cache_get (clock w) cacheKey (cache w)),
                trace := trace w @ [CacheGet cacheKey]\<rparr>
     in case fst (Cache_get (clock w) cacheKey (cache w)) of
        Some cached \<Rightarrow> (Inr (cached\<lparr>meta := (meta cached)\<lparr>cache_hit := True\<rparr>\<rparr>), w2)
      | None \<Rightarrow>
     (case getEnv_outcome of
        Inl error \<Rightarrow> (Inl error, w2)
      | Inr env \<Rightarrow>
     if \<not> truthy_str (PERPLEXITY_API_KEY env)
     then (Inl (Error ''PERPLEXITY_API_KEY is not configured''), w2)
     else
     (case makePerplexityRequest getEnv_outcome search_api (the (PERPLEXITY_API_KEY env)) (build_payload params) w2 of
        (Inl error, w3) \<Rightarrow> (Inl error, w3)
      | (Inr response, w3) \<Rightarrow>
     (case api_results response of
        None \<Rightarrow> (Inl (TypeError ''Cannot read properties of undefined (reading 'map')''), w3)
      | Some raw \<Rightarrow>
     let normalizedResults = normalizeResults U raw;
         finalResults =
           (case dedupe params of
              None \<Rightarrow> normalizedResults
            | Some strategy \<Rightarrow>
                if strategy \<noteq> Dedupe_none
                then deduplicateResults U normalizedResults strategy
                else normalizedResults);
         result =
           \<lparr>results = finalResults,
            meta = \<lparr>query = q params,
                    meta_top_k = or_default (top_k params) 10,
                    meta_time_range = (case time_range params of None \<Rightarrow> TR_any | Some t \<Rightarrow> t),
                    cost_estimate = calculateCost (length normalizedResults),
                    cache_hit = False,
                    response_time = clock w3 - clock w\<rparr>,
            clusters = None, highlights = None, citations = None\<rparr>
     in (Inr result,
         w3\<lparr>cache := Cache_set (clock w3) cacheKey result None (cache w3),
            trace := trace w3 @ [CacheSet cacheKey],
            rateLimiter := increment (clock w3) (rateLimiter w3)\<rparr>)))))"
proof -
  obtain allowed rl where c: "checkLimit (clock w) (rateLimiter w) = (allowed, rl)"
    by (cases "checkLimit (clock w) (rateLimiter w)")
  obtain cached c' where g: "Cache_get (clock w) (createCacheKey params) (cache w) = (cached, c')"
    by (cases "Cache_get (clock w) (createCacheKey params) (cache w)")
  from assms c g show ?thesis
    by (simp add: searchWeb_def Let_def split: option.splits sum.splits prod.splits)
qed

lemma Cache_get_cases:
  "(fst (Cache_get now key c) = None \<and> snd (Cache_get now key c) = c \<and> map_of (entries c) key = None)
   \<or> (\<exists>entry. map_of (entries c) key = Some entry \<and> expired now entry
        \<and> fst (Cache_get now key c) = None
        \<and> snd (Cache_get now key c) = c\<lparr>entries := AList.delete key (entries c)\<rparr>)
   \<or> (\<exists>entry. map_of (entries c) key = Some entry \<and> \<not> expired now entry
        \<and> fst (Cache_get now key c) = Some (data entry) \<and> snd (Cache_get now key c) = c)"
  by (auto simp: Cache_get_def split: option.splits)

lemma searchWeb_error_frame:
  assumes run: "searchWeb U getEnv_outcome search_api params w = (Inl error, w')"
  shows "rateLimiter w' = snd (checkLimit (clock w) (rateLimiter w))
       \<and> (cache w' = cache w
            \<or> fst (Cache_get (clock w) (createCacheKey params) (cache w)) = None
              \<and> cache w' = snd (Cache_get (clock w) (createCacheKey params) (cache w)))
       \<and> (\<exists>evs. trace w' = trace w @ evs
              \<and> list_all (\<lambda>e. e = CacheGet (createCacheKey params) \<or> is_post e) evs)"
proof (cases "fst (checkLimit (clock w) (rateLimiter w))")
  case False
  from searchWeb_refused [OF False, of U getEnv_outcome search_api params] run
  have "w' = w\<lparr>rateLimiter := snd (checkLimit (clock w) (rateLimiter w))\<rparr>" by simp
  then show ?thesis by simp
next
  case True
  let ?key = "createCacheKey params"
  let ?w2 = "w\<lparr>rateLimiter := snd (checkLimit (clock w) (rateLimiter w)),
                cache := snd (Cache_get (clock w) ?key (cache w)),
                trace := trace w @ [CacheGet ?key]\<rparr>"
  note unf = searchWeb_admitted [OF True, of U getEnv_outcome search_api params]
  show ?thesis
  proof (cases "fst (Cache_get (clock w) ?key (cache w))")
    case (Some cached)
    with unf run show ?thesis by (simp add: Let_def)
  next
    case None
    note miss = None
    show ?thesis
    proof (cases getEnv_outcome)
      case (Inl e)
      with unf run miss have "w' = ?w2" by (simp add: Let_def)
      with miss show ?thesis by simp
    next
      case (Inr env)
      show ?thesis
      proof (cases "truthy_str (PERPLEXITY_API_KEY env)")
        case False
        with unf run miss Inr have "w' = ?w2" by (simp add: Let_def)
        with miss show ?thesis by simp
      next
        case True
        obtain r3 w3 where req:
          "makePerplexityRequest getEnv_outcome search_api (the (PERPLEXITY_API_KEY env)) (build_payload params) ?w2
             = (r3, w3)"
          by (cases "makePerplexityRequest getEnv_outcome search_api (the (PERPLEXITY_API_KEY env)) (build_payload params) ?w2")
        from makePerplexityRequest_frame [OF req]
        obtain evs where fr: "rateLimiter w3 = rateLimiter ?w2" "cache w3 = cache ?w2"
          "trace w3 = trace ?w2 @ evs" "list_all is_post evs" by blast
        have w': "w' = w3"
          using unf run miss Inr True req
          by (auto simp: Let_def split: sum.splits option.splits)
        have a: "rateLimiter w' = snd (checkLimit (clock w) (rateLimiter w))"
          using w' fr(1) by simp
        have b: "cache w' = snd (Cache_get (clock w) ?key (cache w))"
          using w' fr(2) by simp
        have "trace w' = trace w @ (CacheGet ?key # evs)
            \<and> list_all (\<lambda>e. e = CacheGet ?key \<or> is_post e) (CacheGet ?key # evs)"
          using w' fr(3,4) by (simp add: list_all_iff)
        then have c: "\<exists>evs. trace w' = trace w @ evs
              \<and> list_all (\<lambda>e. e = CacheGet ?key \<or> is_post e) evs" by blast
        show ?thesis using a b c miss by blast
      qed
    qed
  qed
qed


lemma dedupe_filter_subset: "set (dedupe_filter key seen xs) \<subseteq> set xs"
  by (induction xs arbitrary: seen) auto

lemma normalizeResults_well_formed:
  "list_all (\<lambda>x. title x \<noteq> [] \<and> url x \<noteq> [] \<and> isValidUrl U (url x)) (normalizeResults U raw)"
  by (simp add: normalizeResults_def list_all_iff)

lemma Cache_get_defaultTtl: "defaultTtl (snd (Cache_get now key c)) = defaultTtl c"
  by (simp add: Cache_get_def split: option.splits)

lemma searchWeb_success:
  assumes run: "searchWeb U getEnv_outcome search_api params w = (Inr r, w')"
  shows "(\<exists>entry. map_of (entries (cache w)) (createCacheKey params) = Some entry
            \<and> \<not> expired (clock w) entry
            \<and> r = (data entry)\<lparr>meta := (meta (data entry))\<lparr>cache_hit := True\<rparr>\<rparr>
            \<and> cache w' = cache w
            \<and> rateLimiter w' = snd (checkLimit (clock w) (rateLimiter w)))
       \<or> (cache_hit (meta r) = False
            \<and> fst (Cache_get (clock w) (createCacheKey params) (cache w)) = None
            \<and> map_of (entries (cache w')) (createCacheKey params)
                 = Some \<lparr>data = r, timestamp = clock w', ttl = defaultTtl (cache w)\<rparr>
            \<and> requests (rateLimiter w')
                 = requests (snd (checkLimit (clock w) (rateLimiter w))) @ [clock w']
            \<and> list_all (\<lambda>x. title x \<noteq> [] \<and> url x \<noteq> [] \<and> isValidUrl U (url x)) (results r))"
proof -
  let ?key = "createCacheKey params"
  let ?w2 = "w\<lparr>rateLimiter := snd (checkLimit (clock w) (rateLimiter w)),
                cache := snd (Cache_get (clock w) ?key (cache w)),
                trace := trace w @ [CacheGet ?key]\<rparr>"
  have adm: "fst (checkLimit (clock w) (rateLimiter w))"
  proof (rule ccontr)
    assume "\<not> fst (checkLimit (clock w) (rateLimiter w))"
    from searchWeb_refused [OF this, of U getEnv_outcome search_api params] run show False by simp
  qed
  note unf = searchWeb_admitted [OF adm, of U getEnv_outcome search_api params]
  show ?thesis
  proof (cases "fst (Cache_get (clock w) ?key (cache w))")
    case (Some cached)
    with Cache_get_cases [of "clock w" ?key "cache w"]
    obtain entry where e: "map_of (entries (cache w)) ?key = Some entry" "\<not> expired (clock w) entry"
      "cached = data entry" "snd (Cache_get (clock w) ?key (cache w)) = cache w"
      by auto
    from unf run Some have "r = cached\<lparr>meta := (meta cached)\<lparr>cache_hit := True\<rparr>\<rparr>" "w' = ?w2"
      by (simp_all add: Let_def)
    with e show ?thesis by simp
  next
    case None
    note miss = None
    from unf run miss obtain env where env: "getEnv_outcome = Inr env" "truthy_str (PERPLEXITY_API_KEY env)"
      by (cases getEnv_outcome) (auto simp: Let_def split: if_splits)
    obtain r3 w3 where req:
      "makePerplexityRequest getEnv_outcome search_api (the (PERPLEXITY_API_KEY env)) (build_payload params) ?w2
         = (r3, w3)"
      by (cases "makePerplexityRequest getEnv_outcome search_api (the (PERPLEXITY_API_KEY env)) (build_payload params) ?w2")
    from makePerplexityRequest_frame [OF req]
    have fr: "rateLimiter w3 = snd (checkLimit (clock w) (rateLimiter w))"
      "cache w3 = snd (Cache_get (clock w) ?key (cache w))" by simp_all
    from unf run miss env req obtain response raw where ok: "r3 = Inr response"
      "api_results response = Some raw"
      by (cases r3; cases "api_results (projr r3)") (auto simp: Let_def)
    let ?normalizedResults = "normalizeResults U raw"
    let ?finalResults =
          "(case dedupe params of
              None \<Rightarrow> ?normalizedResults
            | Some strategy \<Rightarrow>
                if strategy \<noteq> Dedupe_none
                then deduplicateResults U ?normalizedResults strategy
                else ?normalizedResults)"
    have sub: "set ?finalResults \<subseteq> set ?normalizedResults"
      using dedupe_filter_subset
      by (auto simp: deduplicateResults_def split: option.splits)
    define R where "R = \<lparr>results = ?finalResults,
            meta = \<lparr>query = q params,
                    meta_top_k = or_default (top_k params) 10,
                    meta_time_range = (case time_range params of None \<Rightarrow> TR_any | Some t \<Rightarrow> t),
                    cost_estimate = calculateCost (length ?normalizedResults),
                    cache_hit = False,
                    response_time = clock w3 - clock w\<rparr>,
            clusters = None, highlights = None, citations = None\<rparr>"
    have "searchWeb U getEnv_outcome search_api params w =
        (Inr R, w3\<lparr>cache := Cache_set (clock w3) ?key R None (cache w3),
            trace := trace w3 @ [CacheSet ?key],
            rateLimiter := increment (clock w3) (rateLimiter w3)\<rparr>)"
      unfolding unf using miss env req ok
      by (simp add: Let_def R_def)
    with run have r: "r = R"
      and w': "w' = w3\<lparr>cache := Cache_set (clock w3) ?key r None (cache w3),
            trace := trace w3 @ [CacheSet ?key],
            rateLimiter := increment (clock w3) (rateLimiter w3)\<rparr>"
      by auto
    have a: "cache_hit (meta r) = False" using r by (simp add: R_def)
    have b: "map_of (entries (cache w')) ?key
                 = Some \<lparr>data = r, timestamp = clock w', ttl = defaultTtl (cache w)\<rparr>"
      using w' fr(2) by (simp add: Cache_set_def or_default_def update_conv' Cache_get_defaultTtl)
    have c: "requests (rateLimiter w')
                 = requests (snd (checkLimit (clock w) (rateLimiter w))) @ [clock w']"
      using w' fr(1) by (simp add: increment_def)
    have d: "list_all (\<lambda>x. title x \<noteq> [] \<and> url x \<noteq> [] \<and> isValidUrl U (url x)) (results r)"
      using sub normalizeResults_well_formed [of U raw] r
      by (auto simp: list_all_iff R_def)
    show ?thesis using a b c d miss by blast
  qed
qed

subsection \<open>The example keys\<close>



subsection \<open>The client under the repository's environment\<close>

text \<open>
  The object that \<open>getEnv\<close> returns has neither of the two properties the client
  reads, whatever the environment holds.
\<close>

lemma getEnv_no_key:
  assumes "getEnv process_env env_files = Inr env"
  shows "PERPLEXITY_API_KEY env = None \<and> WEB_SEARCH_TIMEOUT_MS env = None"
  using assms
  by (auto simp: getEnv_def Let_def PERPLEXITY_API_KEY_def WEB_SEARCH_TIMEOUT_MS_def
      split: if_splits)

lemma getEnv_throws:
  assumes "\<not> truthy_str (foldl (++) process_env env_files ''GLM_API_KEY'')"
  shows "getEnv process_env env_files = Inl (Error ''GLM_API_KEY environment variable is required'')"
  using assms by (simp add: getEnv_def Let_def)

lemma getEnv_returns:
  assumes "truthy_str (foldl (++) process_env env_files ''GLM_API_KEY'')"
  shows "\<exists>env. getEnv process_env env_files = Inr env"
  using assms by (simp add: getEnv_def Let_def)

text \<open>
  So with the environment of the repository a search ends at the rate-limit check, at
  a cache hit, or, on a miss, at the error of \<open>getEnv\<close> or of the API-key check: no
  request is sent.
\<close>

lemma searchWeb_getEnv:
  "searchWeb U (getEnv process_env env_files) search_api params w =
     (if \<not> fst (checkLimit (clock w) (rateLimiter w))
      then (Inl (Error ''Rate limit exceeded. Please try again later.''),
            w\<lparr>rateLimiter := snd (checkLimit (clock w) (rateLimiter w))\<rparr>)
      else (case fst (Cache_get (clock w) (createCacheKey params) (cache w)) of
              Some cached \<Rightarrow> Inr (cached\<lparr>meta := (meta cached)\<lparr>cache_hit := True\<rparr>\<rparr>)
            | None \<Rightarrow>
                Inl (Error (if truthy_str (foldl (++) process_env env_files ''GLM_API_KEY'')
                            then ''PERPLEXITY_API_KEY is not configured''
                            else ''GLM_API_KEY environment variable is required'')),
            w\<lparr>rateLimiter := snd (checkLimit (clock w) (rateLimiter w)),
              cache := snd (Cache_get (clock w) (createCacheKey params) (cache w)),
              trace := trace w @ [CacheGet (createCacheKey params)]\<rparr>))"
proof (cases "fst (checkLimit (clock w) (rateLimiter w))")
  case False
  then show ?thesis by (simp add: searchWeb_refused)
next
  case True
  note unf = searchWeb_admitted [OF True, of U "getEnv process_env env_files" search_api params]
  show ?thesis
  proof (cases "truthy_str (foldl (++) process_env env_files ''GLM_API_KEY'')")
    case False
    from getEnv_throws [OF False] True show ?thesis
      unfolding unf by (simp add: Let_def False split: option.splits)
  next
    case glm: True
    from getEnv_returns [OF glm] obtain env where env: "getEnv process_env env_files = Inr env"
      by blast
    from getEnv_no_key [OF env] have "\<not> truthy_str (PERPLEXITY_API_KEY env)"
      by (simp add: truthy_str_def)
    with env True glm show ?thesis
      unfolding unf by (simp add: Let_def split: option.splits)
  qed
qed


subsection \<open>The rate-limit refusal\<close>

text \<open>
  C3, as stated, fails: in a world whose limiter is full the call is refused, but what
  it throws is a plain \<^verbatim>\<open>Error\<close>, which carries no \<^verbatim>\<open>WebSearchErrorCode\<close>, so its code
  is not \<open>RATE_LIMIT_EXCEEDED\<close>.
\<close>

theorem searchWeb_refused_error_counterexample:
  "\<not> fst (checkLimit (clock busy_world) (rateLimiter busy_world))
   \<and> fst (searchWeb example_URL (getEnv example_process_env []) example_search_api example_params busy_world)
       = Inl (Error ''Rate limit exceeded. Please try again later.'')
   \<and> web_search_code (Error ''Rate limit exceeded. Please try again later.'')
       \<noteq> Some RATE_LIMIT_EXCEEDED"
  by code_simp

text \<open>
  C3, amended. When the rate-limit check refuses, \<open>searchWeb\<close> fails with the plain
  error \<open>Rate limit exceeded. Please try again later.\<close> (no error code), and the world
  it leaves is the one it found with the limiter pruned by the check: the clock has
  not moved (no wait), the cache is as it was and the trace has no new event (no cache
  read, no request).
\<close>

theorem searchWeb_refused_fails_at_once:
  assumes "\<not> fst (checkLimit (clock w) (rateLimiter w))"
  shows "searchWeb U getEnv_outcome search_api params w
           = (Inl (Error ''Rate limit exceeded. Please try again later.''),
              w\<lparr>rateLimiter := snd (checkLimit (clock w) (rateLimiter w))\<rparr>)
       \<and> web_search_code (Error ''Rate limit exceeded. Please try again later.'') = None
       \<and> clock (snd (searchWeb U getEnv_outcome search_api params w)) = clock w
       \<and> cache (snd (searchWeb U getEnv_outcome search_api params w)) = cache w
       \<and> trace (snd (searchWeb U getEnv_outcome search_api params w)) = trace w"
  using searchWeb_refused [OF assms, of U getEnv_outcome search_api params] by simp

theorem searchWeb_refused_fails_at_once_witness:
  "searchWeb example_URL (getEnv example_process_env []) example_search_api example_params busy_world
     = (Inl (Error ''Rate limit exceeded. Please try again later.''), busy_world)
   \<and> trace (snd (searchWeb example_URL (getEnv example_process_env []) example_search_api example_params busy_world)) = []"
proof -
  have refused: "\<not> fst (checkLimit (clock busy_world) (rateLimiter busy_world))"
    by code_simp
  have same: "busy_world\<lparr>rateLimiter := snd (checkLimit (clock busy_world) (rateLimiter busy_world))\<rparr>
      = busy_world"
    by code_simp
  have "trace busy_world = []" by code_simp
  with searchWeb_refused_fails_at_once [OF refused, of example_URL "getEnv example_process_env []" example_search_api example_params]
    same show ?thesis by simp
qed

subsection \<open>The cache hit\<close>

text \<open>
  C4. Let the cache hold a live entry (its age is at most its \<open>ttl\<close>) under the key of
  the call. Then a call that the rate-limit check admits returns the cached response
  with \<open>meta.cache_hit\<close> set and nothing else changed; no call returns any other
  response (a refused call throws before the cache is read); and in either case the
  limiter records no more requests than before, the cache is unchanged and no request
  goes out.
\<close>

theorem searchWeb_cache_hit:
  assumes "map_of (entries (cache w)) (createCacheKey params) = Some entry"
    and "clock w - timestamp entry \<le> ttl entry"
  shows "(fst (checkLimit (clock w) (rateLimiter w)) \<longrightarrow>
            fst (searchWeb U getEnv_outcome search_api params w)
              = Inr ((data entry)\<lparr>meta := (meta (data entry))\<lparr>cache_hit := True\<rparr>\<rparr>))
       \<and> (\<forall>r. fst (searchWeb U getEnv_outcome search_api params w) = Inr r \<longrightarrow>
              r = (data entry)\<lparr>meta := (meta (data entry))\<lparr>cache_hit := True\<rparr>\<rparr>)
       \<and> length (requests (rateLimiter (snd (searchWeb U getEnv_outcome search_api params w))))
            \<le> length (requests (rateLimiter w))
       \<and> cache (snd (searchWeb U getEnv_outcome search_api params w)) = cache w
       \<and> posts (snd (searchWeb U getEnv_outcome search_api params w)) = posts w"
proof -
  let ?run = "searchWeb U getEnv_outcome search_api params w"
  let ?hit = "(data entry)\<lparr>meta := (meta (data entry))\<lparr>cache_hit := True\<rparr>\<rparr>"
  have live: "\<not> expired (clock w) entry"
    using assms(2) by (simp add: expired_def)
  have pruned: "length (requests (snd (checkLimit (clock w) (rateLimiter w))))
       \<le> length (requests (rateLimiter w))"
    by (simp add: checkLimit_eq)
  show ?thesis
  proof (cases "fst (checkLimit (clock w) (rateLimiter w))")
    case True
    have eq: "?run = (Inr ?hit,
        w\<lparr>rateLimiter := snd (checkLimit (clock w) (rateLimiter w)),
          trace := trace w @ [CacheGet (createCacheKey params)]\<rparr>)"
      by (rule searchWeb_hit [OF True assms(1) live])
    have r: "fst ?run = Inr ?hit" by (simp only: eq fst_conv)
    have l: "rateLimiter (snd ?run) = snd (checkLimit (clock w) (rateLimiter w))"
      by (simp add: eq)
    have c: "cache (snd ?run) = cache w" by (simp add: eq)
    have p: "posts (snd ?run) = posts w" by (simp add: eq posts_def)
    show ?thesis using r l c p pruned by simp
  next
    case False
    have eq: "?run = (Inl (Error ''Rate limit exceeded. Please try again later.''),
        w\<lparr>rateLimiter := snd (checkLimit (clock w) (rateLimiter w))\<rparr>)"
      by (rule searchWeb_refused [OF False])
    have r: "fst ?run = Inl (Error ''Rate limit exceeded. Please try again later.'')"
      by (simp only: eq fst_conv)
    have l: "rateLimiter (snd ?run) = snd (checkLimit (clock w) (rateLimiter w))"
      by (simp add: eq)
    have c: "cache (snd ?run) = cache w" by (simp add: eq)
    have p: "posts (snd ?run) = posts w" by (simp add: eq posts_def)
    show ?thesis using False r l c p pruned by simp
  qed
qed


theorem searchWeb_cache_hit_witness:
  "fst (searchWeb example_URL (getEnv example_process_env []) example_search_api example_params cached_world)
     = Inr (example_response\<lparr>meta := (meta example_response)\<lparr>cache_hit := True\<rparr>\<rparr>)
   \<and> length (requests (rateLimiter
        (snd (searchWeb example_URL (getEnv example_process_env []) example_search_api example_params cached_world)))) \<le> 0
   \<and> cache (snd (searchWeb example_URL (getEnv example_process_env []) example_search_api example_params cached_world))
        = cache cached_world
   \<and> posts (snd (searchWeb example_URL (getEnv example_process_env []) example_search_api example_params cached_world)) = 0"
proof -
  let ?entry = "\<lparr>data = example_response, timestamp = 4000, ttl = 1800000\<rparr>"
  have key: "createCacheKey example_params = ''rust ownership''"
    by (simp add: createCacheKey_def example_params_def)
  have stored: "map_of (entries (cache cached_world)) (createCacheKey example_params) = Some ?entry"
    by (simp add: cached_world_def key)
  have live: "clock cached_world - timestamp ?entry \<le> ttl ?entry"
    by (simp add: cached_world_def example_world_def)
  have adm: "fst (checkLimit (clock cached_world) (rateLimiter cached_world))"
    by (simp add: checkLimit_eq cached_world_def example_world_def example_limiter_def)
  have none: "length (requests (rateLimiter cached_world)) = 0"
    by (simp add: cached_world_def example_world_def example_limiter_def)
  have quiet: "posts cached_world = 0"
    by (simp add: posts_def cached_world_def example_world_def)
  note hit = searchWeb_cache_hit [OF stored live, of example_URL "getEnv example_process_env []" example_search_api]
  let ?run = "searchWeb example_URL (getEnv example_process_env []) example_search_api example_params cached_world"
  have "fst ?run = Inr ((data ?entry)\<lparr>meta := (meta (data ?entry))\<lparr>cache_hit := True\<rparr>\<rparr>)"
    by (rule mp [OF hit [THEN conjunct1] adm])
  then have a: "fst ?run = Inr (example_response\<lparr>meta := (meta example_response)\<lparr>cache_hit := True\<rparr>\<rparr>)"
    by simp
  have "length (requests (rateLimiter (snd ?run))) \<le> length (requests (rateLimiter cached_world))"
    by (rule hit [THEN conjunct2, THEN conjunct2, THEN conjunct1])
  then have b: "length (requests (rateLimiter (snd ?run))) \<le> 0"
    by (simp only: none)
  have c: "cache (snd ?run) = cache cached_world"
    by (rule hit [THEN conjunct2, THEN conjunct2, THEN conjunct2, THEN conjunct1])
  have "posts (snd ?run) = posts cached_world"
    by (rule hit [THEN conjunct2, THEN conjunct2, THEN conjunct2, THEN conjunct2])
  then have d: "posts (snd ?run) = 0"
    by (simp only: quiet)
  show ?thesis by (intro conjI a b c d)
qed

subsection \<open>Failure leaves no trace in cache and limiter\<close>

text \<open>
  C8. When \<open>searchWeb\<close> ends with an error, whichever step threw it, the limiter's
  requests are the old ones pruned to the window (nothing is appended), the cache is
  as it was or has lost the expired entry of the call's key, and the events of the
  call are the cache read and requests: no cache write. When it ends with a response,
  either that is the live cached entry with \<open>cache_hit\<close> set, cache and limiter being
  as after a failure, or it is a fresh response with \<open>cache_hit\<close> unset whose results
  all have a title and a URL that passes \<open>isValidUrl\<close>, which is now stored under the
  key with the default \<open>ttl\<close>, and whose time is appended to the limiter.
\<close>

theorem searchWeb_failure_is_atomic:
  "(searchWeb U getEnv_outcome search_api params w = (Inl error, w') \<longrightarrow>
      requests (rateLimiter w')
        = filter (\<lambda>t. clock w - t < windowMs (rateLimiter w)) (requests (rateLimiter w))
      \<and> (entries (cache w') = entries (cache w)
           \<or> (\<exists>entry. map_of (entries (cache w)) (createCacheKey params) = Some entry
                 \<and> expired (clock w) entry
                 \<and> entries (cache w') = AList.delete (createCacheKey params) (entries (cache w))))
      \<and> (\<exists>evs. trace w' = trace w @ evs
             \<and> list_all (\<lambda>e. e = CacheGet (createCacheKey params) \<or> is_post e) evs))
   \<and> (searchWeb U getEnv_outcome search_api params w = (Inr r, w') \<longrightarrow>
        (\<exists>entry. map_of (entries (cache w)) (createCacheKey params) = Some entry
            \<and> \<not> expired (clock w) entry
            \<and> r = (data entry)\<lparr>meta := (meta (data entry))\<lparr>cache_hit := True\<rparr>\<rparr>
            \<and> cache w' = cache w
            \<and> rateLimiter w' = snd (checkLimit (clock w) (rateLimiter w)))
       \<or> (cache_hit (meta r) = False
            \<and> fst (Cache_get (clock w) (createCacheKey params) (cache w)) = None
            \<and> map_of (entries (cache w')) (createCacheKey params)
                 = Some \<lparr>data = r, timestamp = clock w', ttl = defaultTtl (cache w)\<rparr>
            \<and> requests (rateLimiter w')
                 = requests (snd (checkLimit (clock w) (rateLimiter w))) @ [clock w']
            \<and> list_all (\<lambda>x. title x \<noteq> [] \<and> url x \<noteq> [] \<and> isValidUrl U (url x)) (results r)))"
proof (intro conjI impI)
  assume run: "searchWeb U getEnv_outcome search_api params w = (Inl error, w')"
  note fr = searchWeb_error_frame [OF run]
  from fr show "requests (rateLimiter w')
        = filter (\<lambda>t. clock w - t < windowMs (rateLimiter w)) (requests (rateLimiter w))"
    by (simp add: checkLimit_eq)
  from fr Cache_get_cases [of "clock w" "createCacheKey params" "cache w"]
  show "entries (cache w') = entries (cache w)
           \<or> (\<exists>entry. map_of (entries (cache w)) (createCacheKey params) = Some entry
                 \<and> expired (clock w) entry
                 \<and> entries (cache w') = AList.delete (createCacheKey params) (entries (cache w)))"
    by auto
  from fr show "\<exists>evs. trace w' = trace w @ evs
             \<and> list_all (\<lambda>e. e = CacheGet (createCacheKey params) \<or> is_post e) evs"
    by blast
next
  assume run: "searchWeb U getEnv_outcome search_api params w = (Inr r, w')"
  from searchWeb_success [OF run]
  show "(\<exists>entry. map_of (entries (cache w)) (createCacheKey params) = Some entry
            \<and> \<not> expired (clock w) entry
            \<and> r = (data entry)\<lparr>meta := (meta (data entry))\<lparr>cache_hit := True\<rparr>\<rparr>
            \<and> cache w' = cache w
            \<and> rateLimiter w' = snd (checkLimit (clock w) (rateLimiter w)))
       \<or> (cache_hit (meta r) = False
            \<and> fst (Cache_get (clock w) (createCacheKey params) (cache w)) = None
            \<and> map_of (entries (cache w')) (createCacheKey params)
                 = Some \<lparr>data = r, timestamp = clock w', ttl = defaultTtl (cache w)\<rparr>
            \<and> requests (rateLimiter w')
                 = requests (snd (checkLimit (clock w) (rateLimiter w))) @ [clock w']
            \<and> list_all (\<lambda>x. title x \<noteq> [] \<and> url x \<noteq> [] \<and> isValidUrl U (url x)) (results r))" .
qed

text \<open>The example environment has a \<^verbatim>\<open>GLM_API_KEY\<close>, so \<open>getEnv\<close> returns there.\<close>

lemma example_getEnv_glm: "truthy_str (foldl (++) example_process_env [] ''GLM_API_KEY'')"
  by (simp add: example_process_env_def truthy_str_def)

lemma example_key: "createCacheKey example_params = ''rust ownership''"
  by (simp add: createCacheKey_def example_params_def)

text \<open>
  Two runs: a miss in the example world ends at the API-key check, with the limiter
  and the cache as they were; the hit in the world with the cached response returns
  it and leaves the cache alone.
\<close>

theorem searchWeb_failure_is_atomic_witness:
  "searchWeb example_URL (getEnv example_process_env []) example_search_api example_params example_world
     = (Inl (Error ''PERPLEXITY_API_KEY is not configured''),
        example_world\<lparr>trace := [CacheGet ''rust ownership'']\<rparr>)
   \<and> requests (rateLimiter (example_world\<lparr>trace := [CacheGet ''rust ownership'']\<rparr>)) = []
   \<and> searchWeb example_URL (getEnv example_process_env []) example_search_api example_params cached_world
     = (Inr (example_response\<lparr>meta := (meta example_response)\<lparr>cache_hit := True\<rparr>\<rparr>),
        cached_world\<lparr>trace := [CacheGet ''rust ownership'']\<rparr>)
   \<and> cache (cached_world\<lparr>trace := [CacheGet ''rust ownership'']\<rparr>) = cache cached_world"
proof -
  let ?E = "Error ''PERPLEXITY_API_KEY is not configured''"
  let ?W = "example_world\<lparr>trace := [CacheGet ''rust ownership'']\<rparr>"
  let ?R = "example_response\<lparr>meta := (meta example_response)\<lparr>cache_hit := True\<rparr>\<rparr>"
  let ?V = "cached_world\<lparr>trace := [CacheGet ''rust ownership'']\<rparr>"
  have adm: "fst (checkLimit (clock example_world) (rateLimiter example_world))"
    by (simp add: checkLimit_eq example_world_def example_limiter_def)
  have ev: "searchWeb example_URL (getEnv example_process_env []) example_search_api example_params example_world
      = (Inl ?E, ?W)"
    unfolding searchWeb_getEnv example_key using example_getEnv_glm
    by (simp add: checkLimit_eq Cache_get_def example_world_def example_limiter_def)
  note fr = searchWeb_failure_is_atomic [of example_URL "getEnv example_process_env []"
      example_search_api example_params example_world ?E ?W, THEN conjunct1, THEN mp, OF ev]
  have "requests (rateLimiter ?W)
      = filter (\<lambda>t. clock example_world - t < windowMs (rateLimiter example_world))
          (requests (rateLimiter example_world))"
    by (rule fr [THEN conjunct1])
  also have "\<dots> = []"
    by (simp add: example_world_def example_limiter_def)
  finally have b: "requests (rateLimiter ?W) = []" .
  have hit: "searchWeb example_URL (getEnv example_process_env []) example_search_api example_params cached_world
      = (Inr ?R, ?V)"
    unfolding searchWeb_getEnv example_key
    by (simp add: checkLimit_eq Cache_get_def expired_def cached_world_def example_world_def
        example_limiter_def)
  note ok = searchWeb_failure_is_atomic [of example_URL "getEnv example_process_env []"
      example_search_api example_params cached_world _ ?V ?R, THEN conjunct2, THEN mp, OF hit]
  have "cache_hit (meta ?R)" by simp
  with ok have d: "cache ?V = cache cached_world" by auto
  show ?thesis by (intro conjI ev b hit d)
qed

subsection \<open>The cache key\<close>



subsection \<open>The answer client\<close>






text \<open>
  \<^verbatim>\<open>normalizeSonarResults\<close> on its own: for a response without a \<^verbatim>\<open>citations\<close> array it
  returns the empty array, which is truthy, so \<^verbatim>\<open>citations || evidence\<close> is empty too.
\<close>

lemma normalizeSonarResults_no_citations:
  assumes "normalizeSonarResults body = Inr n"
    and "body = None \<or> raw_citations (the body) = None"
  shows "n_citations n = Some [] \<and> or_array (n_citations n) evidence = []"
  using assms
  by (auto simp: normalizeSonarResults_def or_array_def split: option.splits sum.splits)

text \<open>
  A \<^verbatim>\<open>citations\<close> array that the response does supply comes back entry by entry, each
  entry normalized.
\<close>

lemma map_citations_entries:
  "map_citations cs = Inr xs \<Longrightarrow> list_all2 (\<lambda>c x. normalize_citation c = Inr x) cs xs"
proof (induction cs arbitrary: xs)
  case Nil
  then show ?case by simp
next
  case (Cons c cs)
  then show ?case by (auto split: sum.splits)
qed

lemma normalizeSonarResults_supplied_citations:
  assumes "normalizeSonarResults (Some sonarResult) = Inr n"
    and "raw_citations sonarResult = Some cs"
  shows "\<exists>xs. n_citations n = Some xs \<and> or_array (n_citations n) evidence = xs
            \<and> list_all2 (\<lambda>c x. normalize_citation c = Inr x) cs xs"
proof -
  from assms obtain xs where xs: "map_citations cs = Inr xs" "n_citations n = Some xs"
    by (auto simp: normalizeSonarResults_def split: sum.splits)
  from map_citations_entries [OF xs(1)] xs(2) show ?thesis
    by (simp add: or_array_def)
qed

end
